theory Spec2Isabelle
  imports Main
begin

section \<open>Instants and the date-fns helpers\<close>

text \<open>
  A JavaScript \<^verbatim>\<open>Date\<close> is modelled by its \<^verbatim>\<open>getTime()\<close> value: an integer
  number of milliseconds since the epoch. The helpers of date-fns that read the local
  calendar (\<^verbatim>\<open>setHours\<close>, \<^verbatim>\<open>setMinutes\<close>, \<^verbatim>\<open>getDay\<close>, \<^verbatim>\<open>addDays\<close>,
  \<^verbatim>\<open>toDateString\<close>) are modelled for a local time zone with offset zero and no
  daylight saving, where a calendar day is exactly 86400000 ms. An invalid
  \<^verbatim>\<open>Date\<close> (time value NaN) is \<open>None\<close> where the code can produce one.
\<close>

type_synonym instant = int

definition MS_PER_MINUTE :: int where
  "MS_PER_MINUTE = 60000"

definition MS_PER_HOUR :: int where
  "MS_PER_HOUR = 3600000"

definition MS_PER_DAY :: int where
  "MS_PER_DAY = 86400000"

definition addMinutes :: "instant \<Rightarrow> int \<Rightarrow> instant" where
  "addMinutes d n = d + n * MS_PER_MINUTE"

definition addDays :: "instant \<Rightarrow> int \<Rightarrow> instant" where
  "addDays d n = d + n * MS_PER_DAY"

definition isBefore :: "instant \<Rightarrow> instant \<Rightarrow> bool" where
  "isBefore a b = (a < b)"

definition isAfter :: "instant \<Rightarrow> instant \<Rightarrow> bool" where
  "isAfter a b = (a > b)"

text \<open>\<^verbatim>\<open>setHours(d, h)\<close> replaces the hour of the local day and keeps minutes, seconds
  and milliseconds; an hour outside 0..23 carries into the neighbouring days, as the
  linear arithmetic does.\<close>

definition setHours :: "instant \<Rightarrow> int \<Rightarrow> instant" where
  "setHours d h = (d - d mod MS_PER_DAY) + h * MS_PER_HOUR + d mod MS_PER_HOUR"

text \<open>\<^verbatim>\<open>setMinutes(d, m)\<close> replaces the minute of the hour and keeps seconds and
  milliseconds.\<close>

definition setMinutes :: "instant \<Rightarrow> int \<Rightarrow> instant" where
  "setMinutes d m = (d - d mod MS_PER_HOUR) + m * MS_PER_MINUTE + d mod MS_PER_MINUTE"

text \<open>\<^verbatim>\<open>getDay\<close>: 0 is Sunday; day 0 of the epoch was a Thursday.\<close>

definition getDay :: "instant \<Rightarrow> int" where
  "getDay d = (d div MS_PER_DAY + 4) mod 7"

definition getDayOfWeek :: "instant \<Rightarrow> int" where
  "getDayOfWeek d = getDay d"

text \<open>\<^verbatim>\<open>toDateString()\<close> prints the calendar day; two instants have the same string
  exactly when they lie on the same day, so the string is represented by the day number.\<close>

definition toDateString :: "instant \<Rightarrow> int" where
  "toDateString d = d div MS_PER_DAY"

text \<open>\<^verbatim>\<open>getDateRange\<close>: \<^verbatim>\<open>Array.from({ length: days }, (_, i) => addDays(startDate, i))\<close>;
  a length that is not positive gives the empty array.\<close>

definition getDateRange :: "instant \<Rightarrow> int \<Rightarrow> instant list" where
  "getDateRange startDate days = map (\<lambda>i. addDays startDate (int i)) [0..<nat days]"

definition hasMinimumNotice :: "instant \<Rightarrow> instant \<Rightarrow> int \<Rightarrow> bool" where
  "hasMinimumNotice now d minHours = isAfter d (addMinutes now (minHours * 60))"

section \<open>Wall-clock strings\<close>

text \<open>\<^verbatim>\<open>s.split(':')\<close>.\<close>

fun split_colon :: "string \<Rightarrow> string list" where
  "split_colon [] = [[]]"
| "split_colon (c # cs) =
     (if c = CHR '':'' then [] # split_colon cs
      else (case split_colon cs of [] \<Rightarrow> [[c]] | w # ws \<Rightarrow> (c # w) # ws))"

text \<open>The value of a decimal digit, by its character code (\<open>0\<close> is 48, \<open>9\<close> is 57).\<close>

definition digit_of :: "char \<Rightarrow> int option" where
  "digit_of c =
     (let code = (of_char c :: nat)
      in if 48 \<le> code \<and> code \<le> 57 then Some (int code - 48) else None)"

fun digits_value :: "int \<Rightarrow> string \<Rightarrow> int option" where
  "digits_value acc [] = Some acc"
| "digits_value acc (c # cs) =
     (case digit_of c of None \<Rightarrow> None | Some v \<Rightarrow> digits_value (acc * 10 + v) cs)"

text \<open>
  \<^verbatim>\<open>Number(s)\<close> on the strings the schedule holds: a run of decimal digits (the
  segments of \<^verbatim>\<open>HH:MM\<close> and of the store's \<^verbatim>\<open>HH:MM:SS\<close>) has its decimal value, the
  empty string is 0, and \<open>None\<close> stands for NaN. Strings with other characters that
  JavaScript would still read as a number (padding blanks, a sign, a fraction, an
  exponent, a radix prefix) are outside this model and are mapped to NaN here.
\<close>

definition Number :: "string \<Rightarrow> int option" where
  "Number s = digits_value 0 s"

text \<open>\<^verbatim>\<open>const [hour, min] = t.split(':').map(Number)\<close>: the first two segments; a
  missing segment is \<^verbatim>\<open>undefined\<close> and a NaN segment makes the date invalid, so both
  give \<open>None\<close>.\<close>

definition hour_min :: "string \<Rightarrow> (int \<times> int) option" where
  "hour_min t =
     (case map Number (split_colon t) of
        Some h # Some m # _ \<Rightarrow> Some (h, m)
      | _ \<Rightarrow> None)"

section \<open>Slot generation\<close>

record interval =
  iv_start :: instant
  iv_end :: instant

record TimeSlotConfig =
  startTime :: string
  endTime :: string
  slotDuration :: int
  bufferTime :: "int option"

text \<open>\<^verbatim>\<open>config.bufferTime || 0\<close>.\<close>

definition buffer_of :: "TimeSlotConfig \<Rightarrow> int" where
  "buffer_of config = (case bufferTime config of None \<Rightarrow> 0 | Some b \<Rightarrow> b)"

text \<open>
  The \<^verbatim>\<open>while\<close> loop of \<^verbatim>\<open>generateTimeSlots\<close> with its two variables
  (\<open>currentSlot\<close>, \<open>slots\<close>). The loop need not end (a slot duration and buffer
  that sum to zero or less never advance the cursor past \<open>dayEnd\<close>), so the result is
  an option and \<open>None\<close> is the run that does not return.
\<close>

partial_function (option) slots_while ::
  "instant \<Rightarrow> int \<Rightarrow> int \<Rightarrow> instant \<Rightarrow> interval list \<Rightarrow> interval list option" where
  "slots_while dayEnd duration buffer currentSlot slots =
     (if isBefore currentSlot dayEnd then
        slots_while dayEnd duration buffer
          (addMinutes (addMinutes currentSlot duration) buffer)
          (if isBefore (addMinutes currentSlot duration) dayEnd
              \<or> addMinutes currentSlot duration = dayEnd
           then slots @ [\<lparr>iv_start = currentSlot, iv_end = addMinutes currentSlot duration\<rparr>]
           else slots)
      else Some slots)"

declare slots_while.simps [code]

definition generateTimeSlots :: "instant \<Rightarrow> TimeSlotConfig \<Rightarrow> interval list option" where
  "generateTimeSlots date config =
     (case (hour_min (startTime config), hour_min (endTime config)) of
        (Some (startHour, startMin), Some (endHour, endMin)) \<Rightarrow>
          slots_while (setMinutes (setHours date endHour) endMin)
            (slotDuration config)
            (buffer_of config)
            (setMinutes (setHours date startHour) startMin)
            []
      | _ \<Rightarrow> Some [])"

section \<open>Overlap detection\<close>

definition doTimesOverlap :: "instant \<Rightarrow> instant \<Rightarrow> instant \<Rightarrow> instant \<Rightarrow> bool" where
  "doTimesOverlap start1 end1 start2 end2 =
     ((isBefore start1 end2 \<and> isAfter end1 start2)
      \<or> (isBefore start2 end1 \<and> isAfter end2 start1))"

definition isSlotAvailable :: "instant \<Rightarrow> instant \<Rightarrow> interval list \<Rightarrow> bool" where
  "isSlotAvailable slotStart slotEnd bookedSlots =
     (\<not> list_ex (\<lambda>booked. doTimesOverlap slotStart slotEnd (iv_start booked) (iv_end booked))
          bookedSlots)"

section \<open>The store\<close>

text \<open>
  The rows of the tables the actions read and write (\<^verbatim>\<open>sql/calendar_settings.sql\<close>,
  \<^verbatim>\<open>types/database.ts\<close>). A \<^verbatim>\<open>TIMESTAMPTZ\<close> column is an instant; the generated
  UUID keys are natural numbers; the columns that the modelled actions neither read nor
  set (\<^verbatim>\<open>created_at\<close>, \<^verbatim>\<open>updated_at\<close>, \<^verbatim>\<open>created_by\<close> of an event and \<^verbatim>\<open>status\<close> of
  a booking) are left out.
\<close>

record event =
  ev_id :: nat
  title :: string
  description :: "string option"
  ev_start_time :: instant
  ev_end_time :: instant
  is_public :: bool
  event_type :: string

record booking =
  bk_id :: nat
  event_id :: nat
  bk_name :: string
  bk_email :: string
  bk_phone :: "string option"
  bk_notes :: "string option"

record AvailabilityRule =
  rule_id :: string
  user_id :: string
  day_of_week :: int
  start_time :: string
  end_time :: string
  is_active :: bool

record CalendarSettings =
  cs_user_id :: string
  slot_duration :: int
  buffer_time :: int
  advance_booking_days :: int
  min_notice_hours :: int

record DaySchedule =
  ds_day_of_week :: int
  ds_start_time :: string
  ds_end_time :: string
  ds_is_active :: bool

text \<open>
  A call on the Supabase client either resolves to \<^verbatim>\<open>{ data, error: null }\<close>, resolves
  to \<^verbatim>\<open>{ data: null, error }\<close>, or throws. Which of the three happens is the
  environment's choice, given per kind of call by \<open>outcome_of\<close>; a call that does
  not succeed leaves the tables as they were.
\<close>

datatype outcome = Succeeds | ReturnsError string | Throws string

datatype store_op =
  SelectEvents | SelectRules | SelectSchedule | SelectExistingEvent
  | InsertEvent | InsertBooking | DeleteEvent

datatype 'a reply = Reply 'a | ReplyError string | Thrown string

record supabase =
  events :: "event list"
  bookings :: "booking list"
  availability_rules :: "AvailabilityRule list"
  calendar_settings :: "CalendarSettings list"
  outcome_of :: "store_op \<Rightarrow> outcome"

definition fresh_id :: "nat list \<Rightarrow> nat" where
  "fresh_id ids = Suc (fold max ids 0)"

text \<open>\<^verbatim>\<open>from('events').select(...).gte('start_time', startDate).lte('end_time', endDate).eq('is_public', true)\<close>\<close>

definition select_events :: "supabase \<Rightarrow> instant \<Rightarrow> instant \<Rightarrow> event list reply" where
  "select_events db startDate endDate =
     (case outcome_of db SelectEvents of
        Throws m \<Rightarrow> Thrown m
      | ReturnsError m \<Rightarrow> ReplyError m
      | Succeeds \<Rightarrow>
          Reply (filter (\<lambda>e. startDate \<le> ev_start_time e \<and> ev_end_time e \<le> endDate \<and> is_public e)
                   (events db)))"

text \<open>\<^verbatim>\<open>from('availability_rules').select('*').eq('is_active', true)\<close>\<close>

definition select_rules :: "supabase \<Rightarrow> AvailabilityRule list reply" where
  "select_rules db =
     (case outcome_of db SelectRules of
        Throws m \<Rightarrow> Thrown m
      | ReturnsError m \<Rightarrow> ReplyError m
      | Succeeds \<Rightarrow> Reply (filter is_active (availability_rules db)))"

text \<open>\<^verbatim>\<open>from('availability_rules').select('day_of_week, start_time, end_time, is_active')
  .eq('user_id', user.id).order('day_of_week')\<close>; rows with equal keys keep their order.\<close>

definition select_schedule :: "supabase \<Rightarrow> string \<Rightarrow> DaySchedule list reply" where
  "select_schedule db uid =
     (case outcome_of db SelectSchedule of
        Throws m \<Rightarrow> Thrown m
      | ReturnsError m \<Rightarrow> ReplyError m
      | Succeeds \<Rightarrow>
          Reply (map (\<lambda>r. \<lparr>ds_day_of_week = day_of_week r, ds_start_time = start_time r,
                            ds_end_time = end_time r, ds_is_active = is_active r\<rparr>)
                   (sort_key day_of_week (filter (\<lambda>r. user_id r = uid) (availability_rules db)))))"

text \<open>\<^verbatim>\<open>from('events').select('id').eq('start_time', s).eq('end_time', e).maybeSingle()\<close>:
  no row is \<^verbatim>\<open>data: null\<close>, one row is that row, several rows are an error.\<close>

definition select_existing_event :: "supabase \<Rightarrow> instant \<Rightarrow> instant \<Rightarrow> nat option reply" where
  "select_existing_event db s e =
     (case outcome_of db SelectExistingEvent of
        Throws m \<Rightarrow> Thrown m
      | ReturnsError m \<Rightarrow> ReplyError m
      | Succeeds \<Rightarrow>
          (case filter (\<lambda>ev. ev_start_time ev = s \<and> ev_end_time ev = e) (events db) of
             [] \<Rightarrow> Reply None
           | [ev] \<Rightarrow> Reply (Some (ev_id ev))
           | _ \<Rightarrow> ReplyError ''JSON object requested, multiple (or no) rows returned''))"

text \<open>\<^verbatim>\<open>from('events').insert(row).select('id').single()\<close>, with the table's two
  \<^verbatim>\<open>CHECK\<close> constraints (\<^verbatim>\<open>valid_time_range\<close>, \<^verbatim>\<open>valid_duration\<close>).\<close>

definition insert_event :: "supabase \<Rightarrow> event \<Rightarrow> nat reply \<times> supabase" where
  "insert_event db row =
     (case outcome_of db InsertEvent of
        Throws m \<Rightarrow> (Thrown m, db)
      | ReturnsError m \<Rightarrow> (ReplyError m, db)
      | Succeeds \<Rightarrow>
          if \<not> ev_end_time row > ev_start_time row then (ReplyError ''valid_time_range'', db)
          else if \<not> ev_end_time row - ev_start_time row \<le> MS_PER_DAY
            then (ReplyError ''valid_duration'', db)
          else (let new_id = fresh_id (map ev_id (events db))
                in (Reply new_id, db\<lparr>events := events db @ [row\<lparr>ev_id := new_id\<rparr>]\<rparr>)))"

text \<open>\<^verbatim>\<open>from('bookings').insert(row).select('id').single()\<close>\<close>

definition insert_booking :: "supabase \<Rightarrow> booking \<Rightarrow> nat reply \<times> supabase" where
  "insert_booking db row =
     (case outcome_of db InsertBooking of
        Throws m \<Rightarrow> (Thrown m, db)
      | ReturnsError m \<Rightarrow> (ReplyError m, db)
      | Succeeds \<Rightarrow>
          (let new_id = fresh_id (map bk_id (bookings db))
           in (Reply new_id, db\<lparr>bookings := bookings db @ [row\<lparr>bk_id := new_id\<rparr>]\<rparr>)))"

text \<open>\<^verbatim>\<open>from('events').delete().eq('id', id)\<close>; the bookings of the event go with it
  (\<^verbatim>\<open>ON DELETE CASCADE\<close>).\<close>

definition delete_event :: "supabase \<Rightarrow> nat \<Rightarrow> unit reply \<times> supabase" where
  "delete_event db i =
     (case outcome_of db DeleteEvent of
        Throws m \<Rightarrow> (Thrown m, db)
      | ReturnsError m \<Rightarrow> (ReplyError m, db)
      | Succeeds \<Rightarrow>
          (Reply (), db\<lparr>events := filter (\<lambda>e. ev_id e \<noteq> i) (events db),
                        bookings := filter (\<lambda>b. event_id b \<noteq> i) (bookings db)\<rparr>))"

section \<open>Available slots (\<^verbatim>\<open>actions/slots.ts\<close>)\<close>

record GetAvailableSlotsParams =
  startDate :: instant
  days :: "int option"
  param_slotDuration :: "int option"
  param_bufferTime :: "int option"

record TimeSlot =
  ts_start :: instant
  ts_end :: instant
  available :: bool

definition DEFAULT_AVAILABILITY_RULES :: "AvailabilityRule list" where
  "DEFAULT_AVAILABILITY_RULES =
     [\<lparr>rule_id = ''1'', user_id = ''default'', day_of_week = 1, start_time = ''09:00'', end_time = ''18:00'', is_active = True\<rparr>,
      \<lparr>rule_id = ''2'', user_id = ''default'', day_of_week = 2, start_time = ''09:00'', end_time = ''18:00'', is_active = True\<rparr>,
      \<lparr>rule_id = ''3'', user_id = ''default'', day_of_week = 3, start_time = ''09:00'', end_time = ''18:00'', is_active = True\<rparr>,
      \<lparr>rule_id = ''4'', user_id = ''default'', day_of_week = 4, start_time = ''09:00'', end_time = ''18:00'', is_active = True\<rparr>,
      \<lparr>rule_id = ''5'', user_id = ''default'', day_of_week = 5, start_time = ''09:00'', end_time = ''18:00'', is_active = True\<rparr>]"

text \<open>Lines 57 to 68: the rules the engine works with. The persisted active rows when
  the query gave at least one, the default rules otherwise.\<close>

definition resolve_rules :: "AvailabilityRule list reply \<Rightarrow> AvailabilityRule list" where
  "resolve_rules r =
     (case r of
        Reply rulesData \<Rightarrow> if length rulesData > 0 then rulesData else DEFAULT_AVAILABILITY_RULES
      | _ \<Rightarrow> DEFAULT_AVAILABILITY_RULES)"

text \<open>\<^verbatim>\<open>rules?.find((r) => r.day_of_week === dayOfWeek)\<close>\<close>

definition dayRule_of :: "AvailabilityRule list \<Rightarrow> instant \<Rightarrow> AvailabilityRule option" where
  "dayRule_of rules date = find (\<lambda>r. day_of_week r = getDayOfWeek date) rules"

text \<open>Lines 92 to 100: the events that start on the day, as intervals.\<close>

definition bookedSlots_of :: "event list \<Rightarrow> instant \<Rightarrow> interval list" where
  "bookedSlots_of evs date =
     map (\<lambda>event. \<lparr>iv_start = ev_start_time event, iv_end = ev_end_time event\<rparr>)
       (filter (\<lambda>event. toDateString (ev_start_time event) = toDateString date) evs)"

text \<open>The \<^verbatim>\<open>for (const date of dateRange)\<close> loop with its variable \<open>allSlots\<close>. A day
  whose slot loop does not return keeps the whole call from returning.\<close>

fun for_dates ::
  "AvailabilityRule list \<Rightarrow> event list \<Rightarrow> int \<Rightarrow> int \<Rightarrow> instant list \<Rightarrow> TimeSlot list
   \<Rightarrow> TimeSlot list option" where
  "for_dates rules evs duration buffer [] allSlots = Some allSlots"
| "for_dates rules evs duration buffer (date # rest) allSlots =
     (case dayRule_of rules date of
        None \<Rightarrow> for_dates rules evs duration buffer rest allSlots
      | Some dayRule \<Rightarrow>
          (case generateTimeSlots date
                  \<lparr>startTime = start_time dayRule, endTime = end_time dayRule,
                   slotDuration = duration, bufferTime = Some buffer\<rparr> of
             None \<Rightarrow> None
           | Some daySlots \<Rightarrow>
               for_dates rules evs duration buffer rest
                 (allSlots @
                  map (\<lambda>slot. \<lparr>ts_start = iv_start slot, ts_end = iv_end slot,
                                available = isSlotAvailable (iv_start slot) (iv_end slot)
                                              (bookedSlots_of evs date)\<rparr>)
                    daySlots)))"

text \<open>
  \<^verbatim>\<open>getAvailableSlots\<close>, from line 38 on (the client handle of line 37 is taken as
  obtained). The whole body is inside \<^verbatim>\<open>try\<close>/\<^verbatim>\<open>catch\<close>, and the handler returns the
  empty list. With an empty date range \<^verbatim>\<open>endDate\<close> is \<^verbatim>\<open>undefined\<close> and
  \<^verbatim>\<open>endDate.toISOString()\<close> throws before any query is sent. \<open>None\<close> is the call
  that does not return.
\<close>

text \<open>The destructuring \<^verbatim>\<open>{ startDate, days = 60, slotDuration = 30, bufferTime = 0 } = params\<close>.\<close>

definition days_or_default :: "GetAvailableSlotsParams \<Rightarrow> int" where
  "days_or_default params = (case days params of None \<Rightarrow> 60 | Some d \<Rightarrow> d)"

definition slotDuration_or_default :: "GetAvailableSlotsParams \<Rightarrow> int" where
  "slotDuration_or_default params = (case param_slotDuration params of None \<Rightarrow> 30 | Some d \<Rightarrow> d)"

definition bufferTime_or_default :: "GetAvailableSlotsParams \<Rightarrow> int" where
  "bufferTime_or_default params = (case param_bufferTime params of None \<Rightarrow> 0 | Some b \<Rightarrow> b)"

definition getAvailableSlots :: "supabase \<Rightarrow> GetAvailableSlotsParams \<Rightarrow> TimeSlot list option" where
  "getAvailableSlots db params =
     (let dateRange = getDateRange (startDate params) (days_or_default params)
      in if dateRange = [] then Some []
         else (let endDate = last dateRange
               in (case select_events db (startDate params) endDate of
                     Thrown m \<Rightarrow> Some []
                   | ReplyError m \<Rightarrow> Some []
                   | Reply evs \<Rightarrow>
                       (case select_rules db of
                          Thrown m \<Rightarrow> Some []
                        | rulesReply \<Rightarrow>
                            for_dates (resolve_rules rulesReply) evs
                              (slotDuration_or_default params) (bufferTime_or_default params)
                              dateRange []))))"

section \<open>The admin schedule read (\<^verbatim>\<open>getSchedule\<close>)\<close>

datatype 'a ApiResponse = Success 'a | Failure string

definition DEFAULT_SCHEDULE :: "DaySchedule list" where
  "DEFAULT_SCHEDULE =
     [\<lparr>ds_day_of_week = 0, ds_start_time = ''09:00'', ds_end_time = ''18:00'', ds_is_active = False\<rparr>,
      \<lparr>ds_day_of_week = 1, ds_start_time = ''09:00'', ds_end_time = ''18:00'', ds_is_active = True\<rparr>,
      \<lparr>ds_day_of_week = 2, ds_start_time = ''09:00'', ds_end_time = ''18:00'', ds_is_active = True\<rparr>,
      \<lparr>ds_day_of_week = 3, ds_start_time = ''09:00'', ds_end_time = ''18:00'', ds_is_active = True\<rparr>,
      \<lparr>ds_day_of_week = 4, ds_start_time = ''09:00'', ds_end_time = ''18:00'', ds_is_active = True\<rparr>,
      \<lparr>ds_day_of_week = 5, ds_start_time = ''09:00'', ds_end_time = ''18:00'', ds_is_active = True\<rparr>,
      \<lparr>ds_day_of_week = 6, ds_start_time = ''09:00'', ds_end_time = ''18:00'', ds_is_active = False\<rparr>]"

text \<open>Lines 282 to 293: the merge of the persisted rows into the defaults.\<close>

definition merge_with_defaults :: "DaySchedule list \<Rightarrow> DaySchedule list" where
  "merge_with_defaults rows =
     map (\<lambda>defaultDay.
            case find (\<lambda>r. ds_day_of_week r = ds_day_of_week defaultDay) rows of
              Some existingRule \<Rightarrow>
                \<lparr>ds_day_of_week = ds_day_of_week existingRule,
                 ds_start_time = ds_start_time existingRule,
                 ds_end_time = ds_end_time existingRule,
                 ds_is_active = ds_is_active existingRule\<rparr>
            | None \<Rightarrow> defaultDay)
       DEFAULT_SCHEDULE"

text \<open>\<^verbatim>\<open>getSchedule\<close>; \<open>user\<close> is what \<^verbatim>\<open>getCurrentUser()\<close> resolved to (the id of the
  signed-in user, or \<open>None\<close>).\<close>

definition getSchedule :: "supabase \<Rightarrow> string option \<Rightarrow> DaySchedule list ApiResponse" where
  "getSchedule db user =
     (case user of
        None \<Rightarrow> Failure ''No autenticado''
      | Some uid \<Rightarrow>
          (case select_schedule db uid of
             Thrown m \<Rightarrow> Failure ''Error inesperado''
           | ReplyError m \<Rightarrow> Success DEFAULT_SCHEDULE
           | Reply rows \<Rightarrow>
               if length rows = 0 then Success DEFAULT_SCHEDULE
               else Success (merge_with_defaults rows)))"

section \<open>Bookings (\<^verbatim>\<open>createBooking\<close>)\<close>

text \<open>
  The validated input. \<^verbatim>\<open>createBookingSchema.safeParse(input)\<close> is the zod library's
  check of the field formats; its result is the argument of the model: either the message
  of the first issue, or the parsed data, in which \<^verbatim>\<open>slot_start\<close> and \<^verbatim>\<open>slot_end\<close> are
  the instants the two ISO strings denote. The client handle of lines 18 to 25 is taken
  as obtained.
\<close>

record CreateBookingInput =
  slot_start :: instant
  slot_end :: instant
  in_name :: string
  in_email :: string
  in_phone :: "string option"
  in_notes :: "string option"

datatype validation = Invalid string | Valid CreateBookingInput

text \<open>\<^verbatim>\<open>x || null\<close> on an optional string: the empty string is falsy.\<close>

definition or_null :: "string option \<Rightarrow> string option" where
  "or_null x = (case x of None \<Rightarrow> None | Some s \<Rightarrow> if s = [] then None else Some s)"

text \<open>The result is the response together with the store after the call.\<close>

definition createBooking ::
  "supabase \<Rightarrow> instant \<Rightarrow> validation \<Rightarrow> nat ApiResponse \<times> supabase" where
  "createBooking db now validation =
     (case validation of
        Invalid message \<Rightarrow> (Failure message, db)
      | Valid data \<Rightarrow>
          if slot_start data < now then (Failure ''No se puede reservar un horario pasado'', db)
          else
            (case select_existing_event db (slot_start data) (slot_end data) of
               Thrown m \<Rightarrow> (Failure (''Error inesperado: '' @ m), db)
             | ReplyError m \<Rightarrow> (Failure ''Error al verificar disponibilidad'', db)
             | Reply (Some existingEvent) \<Rightarrow> (Failure ''Este horario ya fue reservado'', db)
             | Reply None \<Rightarrow>
                 (case insert_event db
                         \<lparr>ev_id = 0, title = ''Reserva: '' @ in_name data,
                          description = or_null (in_notes data),
                          ev_start_time = slot_start data, ev_end_time = slot_end data,
                          is_public = True, event_type = ''booking''\<rparr> of
                    (Thrown m, db1) \<Rightarrow> (Failure (''Error inesperado: '' @ m), db1)
                  | (ReplyError m, db1) \<Rightarrow> (Failure (''Error al crear el evento: '' @ m), db1)
                  | (Reply eventData, db1) \<Rightarrow>
                      (case insert_booking db1
                              \<lparr>bk_id = 0, event_id = eventData, bk_name = in_name data,
                               bk_email = in_email data, bk_phone = or_null (in_phone data),
                               bk_notes = or_null (in_notes data)\<rparr> of
                         (Thrown m, db2) \<Rightarrow> (Failure (''Error inesperado: '' @ m), db2)
                       | (ReplyError m, db2) \<Rightarrow>
                           (case delete_event db2 eventData of
                              (Thrown m', db3) \<Rightarrow> (Failure (''Error inesperado: '' @ m'), db3)
                            | (_, db3) \<Rightarrow> (Failure (''Error al crear la reserva: '' @ m), db3))
                       | (Reply new_id, db2) \<Rightarrow> (Success new_id, db2)))))"

section \<open>The calendar component's window\<close>

text \<open>The filter of \<^verbatim>\<open>availableByDay\<close> in the \<^verbatim>\<open>Calendar\<close> component: a slot counts
  when it is available and starts no earlier than 12 hours and no later than 7 days from
  now, both written as constants in the component.\<close>

definition Calendar_counts_slot :: "instant \<Rightarrow> TimeSlot \<Rightarrow> bool" where
  "Calendar_counts_slot now s =
     (let minDate = now + 12 * 60 * 60 * 1000; maxDate = now + 7 * 24 * 60 * 60 * 1000
      in available s \<and> \<not> (ts_start s < minDate \<or> ts_start s > maxDate))"

section \<open>Notions used to state the properties of the generator\<close>

text \<open>The instant formed from a day and a wall-clock string, as lines 89 and 90 of
  \<^verbatim>\<open>generateTimeSlots\<close> form it; \<open>None\<close> when the string does not parse.\<close>

definition wall_instant :: "instant \<Rightarrow> string \<Rightarrow> instant option" where
  "wall_instant date t =
     (case hour_min t of None \<Rightarrow> None | Some (h, m) \<Rightarrow> Some (setMinutes (setHours date h) m))"

text \<open>The length in minutes of a rule's window, when both of its strings parse, and the
  rules whose window is at most a given number of minutes.\<close>

definition window_minutes :: "string \<Rightarrow> string \<Rightarrow> int option" where
  "window_minutes st en =
     (case (hour_min st, hour_min en) of
        (Some (sh, sm), Some (eh, em)) \<Rightarrow> Some ((eh * 60 + em) - (sh * 60 + sm))
      | _ \<Rightarrow> None)"

definition window_at_most :: "int \<Rightarrow> AvailabilityRule \<Rightarrow> bool" where
  "window_at_most window r =
     (case window_minutes (start_time r) (end_time r) of None \<Rightarrow> True | Some w \<Rightarrow> w \<le> window)"

text \<open>A store with empty tables whose calls all succeed, and a Monday (1 January 2024,
  00:00), used for the concrete runs below.\<close>

definition empty_store :: supabase where
  "empty_store =
     \<lparr>events = [], bookings = [], availability_rules = [], calendar_settings = [],
      outcome_of = (\<lambda>_. Succeeds)\<rparr>"

definition monday :: instant where
  "monday = 1704067200000"

text \<open>A store whose settings ask for 12 hours of notice and a horizon of 7 days, with
  one half-hour window on Mondays and one on Wednesdays.\<close>

definition notice_store :: supabase where
  "notice_store =
     empty_store
       \<lparr>availability_rules :=
          [\<lparr>rule_id = ''r1'', user_id = ''admin'', day_of_week = 1,
            start_time = ''09:00'', end_time = ''09:30'', is_active = True\<rparr>,
           \<lparr>rule_id = ''r2'', user_id = ''admin'', day_of_week = 3,
            start_time = ''09:00'', end_time = ''09:30'', is_active = True\<rparr>],
        calendar_settings :=
          [\<lparr>cs_user_id = ''admin'', slot_duration = 30, buffer_time = 0,
            advance_booking_days = 7, min_notice_hours = 12\<rparr>]\<rparr>"

text \<open>A store whose only persisted rule is for Mondays.\<close>

definition monday_only_store :: supabase where
  "monday_only_store =
     empty_store
       \<lparr>availability_rules :=
          [\<lparr>rule_id = ''r1'', user_id = ''admin'', day_of_week = 1,
            start_time = ''10:00'', end_time = ''11:00'', is_active = True\<rparr>]\<rparr>"

text \<open>A booking request for Monday 10:30 to 11:30, a store that holds a booking for
  Monday 10:00 to 11:00, and stores in which the booking insert, or the booking insert
  and the delete, return an error.\<close>

definition ana :: CreateBookingInput where
  "ana = \<lparr>slot_start = 1704105000000, slot_end = 1704108600000, in_name = ''Ana'',
          in_email = ''ana@example.com'', in_phone = None, in_notes = None\<rparr>"

definition booked_store :: supabase where
  "booked_store =
     empty_store
       \<lparr>events :=
          [\<lparr>ev_id = 1, title = ''Reserva: Luis'', description = None,
            ev_start_time = 1704103200000, ev_end_time = 1704106800000,
            is_public = True, event_type = ''booking''\<rparr>],
        bookings :=
          [\<lparr>bk_id = 1, event_id = 1, bk_name = ''Luis'', bk_email = ''luis@example.com'',
            bk_phone = None, bk_notes = None\<rparr>]\<rparr>"

definition failing_rollback_store :: supabase where
  "failing_rollback_store =
     empty_store
       \<lparr>outcome_of := (outcome_of empty_store)
          (InsertBooking := ReturnsError ''insert failed'',
           DeleteEvent := ReturnsError ''delete failed'')\<rparr>"

definition failing_booking_store :: supabase where
  "failing_booking_store =
     booked_store
       \<lparr>outcome_of := (outcome_of booked_store)(InsertBooking := ReturnsError ''insert failed'')\<rparr>"

text \<open>The \<open>i\<close>-th candidate of a cursor that starts at \<open>s0\<close> and advances by
  \<open>duration + buffer\<close> minutes.\<close>

definition nth_slot :: "instant \<Rightarrow> int \<Rightarrow> int \<Rightarrow> nat \<Rightarrow> interval" where
  "nth_slot s0 duration buffer i =
     \<lparr>iv_start = addMinutes s0 (int i * (duration + buffer)),
      iv_end = addMinutes (addMinutes s0 (int i * (duration + buffer))) duration\<rparr>"

text \<open>What a returning run of the loop has computed: it only runs with a positive
  step, the result extends the accumulator by the first \<open>n\<close> candidates, each of
  them ends by \<open>dayEnd\<close>, and nothing is emitted once a candidate overshoots.\<close>

definition loop_post :: "instant \<Rightarrow> int \<Rightarrow> int \<Rightarrow> instant \<Rightarrow> interval list \<Rightarrow> interval list \<Rightarrow> bool" where
  "loop_post dayEnd duration buffer cur acc res =
     ((cur < dayEnd \<longrightarrow> 0 < duration + buffer)
      \<and> (\<exists>n. res = acc @ map (nth_slot cur duration buffer) [0..<n]
             \<and> (\<forall>i<n. iv_end (nth_slot cur duration buffer i) \<le> dayEnd)
             \<and> (\<not> addMinutes cur duration \<le> dayEnd \<longrightarrow> n = 0)))"

section \<open>Occupancy filter\<close>

lemma doTimesOverlap_iff:
  "doTimesOverlap s1 e1 s2 e2 = (s1 < e2 \<and> s2 < e1)"
  by (auto simp: doTimesOverlap_def isBefore_def isAfter_def)

text \<open>
  C1. For a candidate slot with start before end and any list of booked intervals,
  \<open>isSlotAvailable\<close> is false exactly when some booked interval \<open>b\<close> has
  \<open>slotStart < b.end\<close> and \<open>b.start < slotEnd\<close>; and it is true when every
  booked interval only touches the slot at an endpoint.
\<close>

theorem isSlotAvailable_false_iff_overlap:
  assumes "slotStart < slotEnd"
  shows "((isSlotAvailable slotStart slotEnd B = False)
            = (\<exists>b \<in> set B. slotStart < iv_end b \<and> iv_start b < slotEnd))
         \<and> ((\<forall>b \<in> set B. slotEnd = iv_start b \<or> iv_end b = slotStart)
              \<longrightarrow> isSlotAvailable slotStart slotEnd B = True)"
proof (intro conjI impI)
  show "(isSlotAvailable slotStart slotEnd B = False)
          = (\<exists>b \<in> set B. slotStart < iv_end b \<and> iv_start b < slotEnd)"
    by (simp add: isSlotAvailable_def list_ex_iff doTimesOverlap_iff)
next
  assume touch: "\<forall>b \<in> set B. slotEnd = iv_start b \<or> iv_end b = slotStart"
  have "\<not> (slotStart < iv_end b \<and> iv_start b < slotEnd)" if "b \<in> set B" for b
    using touch that by auto
  then show "isSlotAvailable slotStart slotEnd B = True"
    by (simp add: isSlotAvailable_def list_ex_iff doTimesOverlap_iff)
qed

theorem isSlotAvailable_false_iff_overlap_witness:
  "(0::int) < 30
   \<and> isSlotAvailable 0 30 [\<lparr>iv_start = 30, iv_end = 60\<rparr>, \<lparr>iv_start = -30, iv_end = 0\<rparr>] = True
   \<and> isSlotAvailable 0 30 [\<lparr>iv_start = 29, iv_end = 60\<rparr>] = False"
proof -
  have h: "(0::int) < 30" by simp
  have touching: "isSlotAvailable 0 30 [\<lparr>iv_start = 30, iv_end = 60\<rparr>, \<lparr>iv_start = -30, iv_end = 0\<rparr>] = True"
    using isSlotAvailable_false_iff_overlap
      [OF h, of "[\<lparr>iv_start = 30, iv_end = 60\<rparr>, \<lparr>iv_start = -30, iv_end = 0\<rparr>]"]
    by simp
  have overlapping: "isSlotAvailable 0 30 [\<lparr>iv_start = 29, iv_end = 60\<rparr>] = False"
    using isSlotAvailable_false_iff_overlap [OF h, of "[\<lparr>iv_start = 29, iv_end = 60\<rparr>]"]
    by simp
  from h touching overlapping show ?thesis by simp
qed

section \<open>The slot loop\<close>

lemma nth_slot_shift:
  "nth_slot (addMinutes (addMinutes cur duration) buffer) duration buffer i
   = nth_slot cur duration buffer (Suc i)"
  by (simp add: nth_slot_def addMinutes_def algebra_simps)

lemma nth_slot_0:
  "nth_slot cur duration buffer 0 = \<lparr>iv_start = cur, iv_end = addMinutes cur duration\<rparr>"
  by (simp add: nth_slot_def addMinutes_def)

lemma map_nth_slot_Suc:
  "map (nth_slot cur duration buffer) [0..<Suc n]
   = nth_slot cur duration buffer 0
     # map (nth_slot (addMinutes (addMinutes cur duration) buffer) duration buffer) [0..<n]"
proof -
  have "[0..<Suc n] = 0 # map Suc [0..<n]"
    by (simp add: upt_conv_Cons map_Suc_upt del: upt_Suc)
  then show ?thesis
    by (simp add: nth_slot_shift comp_def del: upt_Suc)
qed

lemma slots_while_post:
  assumes "slots_while dayEnd duration buffer cur acc = Some res"
  shows "loop_post dayEnd duration buffer cur acc res"
proof (rule slots_while.raw_induct[where P = loop_post, OF _ assms], goal_cases)
  case (1 loop dayEnd duration buffer cur acc res)
  let ?next = "addMinutes (addMinutes cur duration) buffer"
  have fits: "(isBefore (addMinutes cur duration) dayEnd \<or> addMinutes cur duration = dayEnd)
              = (addMinutes cur duration \<le> dayEnd)"
    by (auto simp: isBefore_def)
  show ?case
  proof (cases "cur < dayEnd")
    case False
    with 1(2) have "res = acc" by (simp add: isBefore_def)
    with False show ?thesis
      by (auto simp: loop_post_def)
  next
    case running: True
    show ?thesis
    proof (cases "addMinutes cur duration \<le> dayEnd")
      case emit: True
      have "loop dayEnd duration buffer ?next (acc @ [nth_slot cur duration buffer 0]) = Some res"
        using 1(2) running emit unfolding fits by (simp add: isBefore_def nth_slot_0)
      from 1(1)[OF this] obtain n where
        step: "?next < dayEnd \<longrightarrow> 0 < duration + buffer"
        and res: "res = (acc @ [nth_slot cur duration buffer 0]) @ map (nth_slot ?next duration buffer) [0..<n]"
        and fit: "\<forall>i<n. iv_end (nth_slot ?next duration buffer i) \<le> dayEnd"
        unfolding loop_post_def by blast
      have pos: "0 < duration + buffer"
      proof (rule ccontr)
        assume neg: "\<not> 0 < duration + buffer"
        then have "?next \<le> cur"
          by (simp add: addMinutes_def MS_PER_MINUTE_def algebra_simps)
        with running step neg show False by linarith
      qed
      have "res = acc @ map (nth_slot cur duration buffer) [0..<Suc n]"
        unfolding map_nth_slot_Suc using res by simp
      moreover have "\<forall>i<Suc n. iv_end (nth_slot cur duration buffer i) \<le> dayEnd"
      proof (intro allI impI)
        fix i assume "i < Suc n"
        show "iv_end (nth_slot cur duration buffer i) \<le> dayEnd"
        proof (cases i)
          case 0
          with emit show ?thesis by (simp add: nth_slot_0)
        next
          case (Suc j)
          with \<open>i < Suc n\<close> fit show ?thesis by (simp add: nth_slot_shift)
        qed
      qed
      ultimately show ?thesis
        unfolding loop_post_def using pos emit by blast
    next
      case skip: False
      have "loop dayEnd duration buffer ?next acc = Some res"
        using 1(2) running skip unfolding fits by (simp add: isBefore_def)
      from 1(1)[OF this] obtain n where
        step: "?next < dayEnd \<longrightarrow> 0 < duration + buffer"
        and res: "res = acc @ map (nth_slot ?next duration buffer) [0..<n]"
        and stop: "\<not> addMinutes ?next duration \<le> dayEnd \<longrightarrow> n = 0"
        unfolding loop_post_def by blast
      have pos: "0 < duration + buffer"
      proof (rule ccontr)
        assume neg: "\<not> 0 < duration + buffer"
        then have "?next \<le> cur"
          by (simp add: addMinutes_def MS_PER_MINUTE_def algebra_simps)
        with running step neg show False by linarith
      qed
      then have "addMinutes cur duration < addMinutes ?next duration"
        by (simp add: addMinutes_def MS_PER_MINUTE_def algebra_simps)
      with skip stop have "n = 0" by simp
      with res have "res = acc @ map (nth_slot cur duration buffer) [0..<0]" by simp
      then show ?thesis
        unfolding loop_post_def using pos by blast
    qed
  qed
qed

lemma slots_while_returns:
  assumes "0 < duration + buffer"
  shows "\<exists>res. slots_while dayEnd duration buffer cur acc = Some res"
proof (induction "nat (dayEnd - cur)" arbitrary: cur acc rule: less_induct)
  case less
  show ?case
  proof (cases "cur < dayEnd")
    case False
    then show ?thesis
      by (subst slots_while.simps) (simp add: isBefore_def)
  next
    case True
    let ?next = "addMinutes (addMinutes cur duration) buffer"
    have "nat (dayEnd - ?next) < nat (dayEnd - cur)"
      using True assms by (simp add: addMinutes_def MS_PER_MINUTE_def algebra_simps)
    from less[OF this] True show ?thesis
      by (subst slots_while.simps) (simp add: isBefore_def)
  qed
qed

section \<open>The slot generator\<close>

lemma generateTimeSlots_post:
  assumes "generateTimeSlots date config = Some slots"
  shows "slots = []
         \<or> (\<exists>s0 dayEnd. wall_instant date (startTime config) = Some s0
               \<and> wall_instant date (endTime config) = Some dayEnd
               \<and> loop_post dayEnd (slotDuration config) (buffer_of config) s0 [] slots)"
proof (cases "hour_min (startTime config)")
  case None
  with assms show ?thesis by (simp add: generateTimeSlots_def)
next
  case (Some sp)
  show ?thesis
  proof (cases "hour_min (endTime config)")
    case None
    with assms Some show ?thesis
      by (simp add: generateTimeSlots_def split: prod.splits)
  next
    case (Some ep)
    obtain sh sm eh em where sp: "sp = (sh, sm)" and ep: "ep = (eh, em)"
      by (cases sp, cases ep) auto
    from assms \<open>hour_min (startTime config) = Some sp\<close> Some
    have "slots_while (setMinutes (setHours date eh) em) (slotDuration config) (buffer_of config)
            (setMinutes (setHours date sh) sm) [] = Some slots"
      by (simp add: generateTimeSlots_def sp ep)
    from slots_while_post[OF this] \<open>hour_min (startTime config) = Some sp\<close> Some
    show ?thesis
      by (auto simp: wall_instant_def sp ep)
  qed
qed

lemma generateTimeSlots_returns:
  assumes "0 < slotDuration config + buffer_of config"
  shows "\<exists>slots. generateTimeSlots date config = Some slots"
  using slots_while_returns[OF assms]
  by (auto simp: generateTimeSlots_def split: option.splits prod.splits)

lemma generateTimeSlots_shape:
  assumes "generateTimeSlots date config = Some slots" and "i < length slots"
  shows "\<exists>s0 dayEnd. wall_instant date (startTime config) = Some s0
           \<and> wall_instant date (endTime config) = Some dayEnd
           \<and> slots ! i = nth_slot s0 (slotDuration config) (buffer_of config) i
           \<and> iv_end (slots ! i) \<le> dayEnd"
proof -
  from assms(2) have "slots \<noteq> []" by auto
  with generateTimeSlots_post[OF assms(1)] obtain s0 dayEnd where
    s0: "wall_instant date (startTime config) = Some s0"
    and de: "wall_instant date (endTime config) = Some dayEnd"
    and post: "loop_post dayEnd (slotDuration config) (buffer_of config) s0 [] slots"
    by blast
  from post obtain n where
    slots: "slots = map (nth_slot s0 (slotDuration config) (buffer_of config)) [0..<n]"
    and fit: "\<forall>j<n. iv_end (nth_slot s0 (slotDuration config) (buffer_of config) j) \<le> dayEnd"
    unfolding loop_post_def by auto
  from slots assms(2) have "i < n" by simp
  with slots fit s0 de show ?thesis by simp
qed

text \<open>
  C2. With a positive slot duration and a non-negative buffer, \<open>generateTimeSlots\<close>
  returns, and every slot it returns lasts exactly \<open>slotDuration\<close> minutes and ends
  no later than the instant formed from the day and the rule's end time. (No condition
  on the order of the rule's start and end is needed.)
\<close>

theorem generateTimeSlots_duration_and_end:
  assumes "0 < slotDuration config" and "0 \<le> buffer_of config"
  shows "\<exists>slots. generateTimeSlots date config = Some slots
           \<and> (\<forall>s \<in> set slots.
                 iv_end s - iv_start s = slotDuration config * MS_PER_MINUTE
                 \<and> (\<exists>dayEnd. wall_instant date (endTime config) = Some dayEnd
                               \<and> iv_end s \<le> dayEnd))"
proof -
  from assms have "0 < slotDuration config + buffer_of config" by simp
  from generateTimeSlots_returns[OF this] obtain slots where
    gen: "generateTimeSlots date config = Some slots" by blast
  have "iv_end s - iv_start s = slotDuration config * MS_PER_MINUTE
        \<and> (\<exists>dayEnd. wall_instant date (endTime config) = Some dayEnd \<and> iv_end s \<le> dayEnd)"
    if "s \<in> set slots" for s
  proof -
    from that obtain i where i: "i < length slots" and s: "s = slots ! i"
      by (auto simp: in_set_conv_nth)
    from generateTimeSlots_shape[OF gen i] s show ?thesis
      by (auto simp: nth_slot_def addMinutes_def)
  qed
  with gen show ?thesis by blast
qed

text \<open>
  C3. In every slot sequence that \<open>generateTimeSlots\<close> returns, each slot starts
  \<open>bufferTime\<close> minutes after the end of the one before it, and the \<open>i\<close>-th slot
  is the \<open>i\<close>-th candidate of the cursor that starts at the rule's start time and
  advances by \<open>slotDuration + bufferTime\<close>; and the function does return when the
  duration is positive and the buffer is not negative.
\<close>

theorem generateTimeSlots_consecutive:
  "(\<forall>slots. generateTimeSlots date config = Some slots \<longrightarrow>
       (\<forall>i. Suc i < length slots \<longrightarrow>
              iv_start (slots ! Suc i) = addMinutes (iv_end (slots ! i)) (buffer_of config))
       \<and> (\<forall>i < length slots.
            \<exists>s0. wall_instant date (startTime config) = Some s0
                  \<and> slots ! i = nth_slot s0 (slotDuration config) (buffer_of config) i))
   \<and> (0 < slotDuration config \<and> 0 \<le> buffer_of config
        \<longrightarrow> (\<exists>slots. generateTimeSlots date config = Some slots))"
proof (intro conjI allI impI)
  fix slots i
  assume gen: "generateTimeSlots date config = Some slots" and i: "Suc i < length slots"
  then have i': "i < length slots" by simp
  from generateTimeSlots_shape[OF gen i] generateTimeSlots_shape[OF gen i']
  show "iv_start (slots ! Suc i) = addMinutes (iv_end (slots ! i)) (buffer_of config)"
    by (auto simp: nth_slot_def addMinutes_def algebra_simps)
next
  fix slots i
  assume gen: "generateTimeSlots date config = Some slots" and i: "i < length slots"
  from generateTimeSlots_shape[OF gen i]
  show "\<exists>s0. wall_instant date (startTime config) = Some s0
              \<and> slots ! i = nth_slot s0 (slotDuration config) (buffer_of config) i"
    by blast
next
  assume "0 < slotDuration config \<and> 0 \<le> buffer_of config"
  then have "0 < slotDuration config + buffer_of config" by simp
  from generateTimeSlots_returns[OF this]
  show "\<exists>slots. generateTimeSlots date config = Some slots" .
qed

theorem generateTimeSlots_duration_and_end_witness:
  "0 < slotDuration \<lparr>startTime = ''09:00'', endTime = ''10:00'', slotDuration = 45, bufferTime = None\<rparr>
   \<and> 0 \<le> buffer_of \<lparr>startTime = ''09:00'', endTime = ''10:00'', slotDuration = 45, bufferTime = None\<rparr>
   \<and> generateTimeSlots 1704067200000
         \<lparr>startTime = ''09:00'', endTime = ''10:00'', slotDuration = 45, bufferTime = None\<rparr>
       = Some [\<lparr>iv_start = 1704099600000, iv_end = 1704102300000\<rparr>]
   \<and> (1704102300000::int) - 1704099600000 = 45 * MS_PER_MINUTE
   \<and> (\<exists>dayEnd. wall_instant 1704067200000 ''10:00'' = Some dayEnd \<and> 1704102300000 \<le> dayEnd)"
proof -
  let ?cfg = "\<lparr>startTime = ''09:00'', endTime = ''10:00'', slotDuration = 45, bufferTime = None\<rparr>"
  have d: "0 < slotDuration ?cfg" by simp
  have b: "0 \<le> buffer_of ?cfg" by (simp add: buffer_of_def)
  have run: "generateTimeSlots 1704067200000 ?cfg
             = Some [\<lparr>iv_start = 1704099600000, iv_end = 1704102300000\<rparr>]"
    by code_simp
  from generateTimeSlots_duration_and_end[OF d b, of 1704067200000] run d b
  show ?thesis by simp
qed

theorem generateTimeSlots_consecutive_witness:
  "0 < slotDuration \<lparr>startTime = ''09:00'', endTime = ''11:00'', slotDuration = 30, bufferTime = Some 15\<rparr>
   \<and> 0 \<le> buffer_of \<lparr>startTime = ''09:00'', endTime = ''11:00'', slotDuration = 30, bufferTime = Some 15\<rparr>
   \<and> generateTimeSlots 1704067200000
     \<lparr>startTime = ''09:00'', endTime = ''11:00'', slotDuration = 30, bufferTime = Some 15\<rparr>
   = Some [\<lparr>iv_start = 1704099600000, iv_end = 1704101400000\<rparr>,
           \<lparr>iv_start = 1704102300000, iv_end = 1704104100000\<rparr>,
           \<lparr>iv_start = 1704105000000, iv_end = 1704106800000\<rparr>]
   \<and> (1704102300000::int) = addMinutes 1704101400000 15
   \<and> (1704105000000::int) = addMinutes 1704104100000 15"
proof -
  let ?cfg = "\<lparr>startTime = ''09:00'', endTime = ''11:00'', slotDuration = 30, bufferTime = Some 15\<rparr>"
  let ?slots = "[\<lparr>iv_start = 1704099600000, iv_end = 1704101400000\<rparr>,
                 \<lparr>iv_start = 1704102300000, iv_end = 1704104100000\<rparr>,
                 \<lparr>iv_start = 1704105000000, iv_end = 1704106800000\<rparr>]"
  have run: "generateTimeSlots 1704067200000 ?cfg = Some ?slots"
    by code_simp
  have step: "\<forall>i. Suc i < length ?slots \<longrightarrow>
                iv_start (?slots ! Suc i) = addMinutes (iv_end (?slots ! i)) (buffer_of ?cfg)"
    using generateTimeSlots_consecutive[of 1704067200000 ?cfg] run by blast
  have "iv_start (?slots ! Suc 0) = addMinutes (iv_end (?slots ! 0)) (buffer_of ?cfg)"
    using step[rule_format, of 0] by simp
  moreover have "iv_start (?slots ! Suc 1) = addMinutes (iv_end (?slots ! 1)) (buffer_of ?cfg)"
    using step[rule_format, of 1] by simp
  moreover have "0 < slotDuration ?cfg \<and> 0 \<le> buffer_of ?cfg"
    by (simp add: buffer_of_def)
  ultimately show ?thesis
    using run by (simp add: buffer_of_def)
qed

section \<open>The number of slots\<close>

lemma setMinutes_setHours:
  "setMinutes (setHours d h) m
   = (d - d mod MS_PER_DAY) + (h * 60 + m) * MS_PER_MINUTE + d mod MS_PER_MINUTE"
proof -
  have day: "d - d mod 86400000 = 3600000 * (24 * (d div 86400000))"
    by (simp add: minus_mod_eq_mult_div)
  have hour: "(d - d mod 86400000 + h * 3600000 + d mod 3600000) mod 3600000 = d mod 3600000"
  proof -
    have "d - d mod 86400000 + h * 3600000 + d mod 3600000
          = d mod 3600000 + 3600000 * (24 * (d div 86400000) + h)"
      unfolding day by (simp add: algebra_simps)
    then show ?thesis by (simp only: mod_mult_self2 mod_mod_trivial)
  qed
  have "(d - d mod 86400000 + h * 3600000 + d mod 3600000) mod 60000 = (d mod 3600000) mod 60000"
  proof -
    have "d - d mod 86400000 + h * 3600000 + d mod 3600000
          = d mod 3600000 + 60000 * (60 * (24 * (d div 86400000)) + 60 * h)"
      unfolding day by (simp add: algebra_simps)
    then show ?thesis by (simp only: mod_mult_self2)
  qed
  also have "(d mod 3600000) mod 60000 = d mod 60000"
    by (simp add: mod_mod_cancel)
  finally have minute: "(d - d mod 86400000 + h * 3600000 + d mod 3600000) mod 60000 = d mod 60000" .
  show ?thesis
    unfolding setMinutes_def setHours_def MS_PER_DAY_def MS_PER_HOUR_def MS_PER_MINUTE_def hour minute
    by (simp add: algebra_simps)
qed

lemma wall_instant_diff:
  assumes "wall_instant date st = Some s0" and "wall_instant date en = Some dayEnd"
  shows "\<exists>w. window_minutes st en = Some w \<and> dayEnd - s0 = w * MS_PER_MINUTE"
proof -
  from assms(1) obtain sh sm where st: "hour_min st = Some (sh, sm)"
    and s0: "s0 = setMinutes (setHours date sh) sm"
    by (auto simp: wall_instant_def split: option.splits)
  from assms(2) obtain eh em where en: "hour_min en = Some (eh, em)"
    and de: "dayEnd = setMinutes (setHours date eh) em"
    by (auto simp: wall_instant_def split: option.splits)
  have "window_minutes st en = Some ((eh * 60 + em) - (sh * 60 + sm))"
    by (simp add: window_minutes_def st en)
  moreover have "dayEnd - s0 = ((eh * 60 + em) - (sh * 60 + sm)) * MS_PER_MINUTE"
    unfolding s0 de setMinutes_setHours by (simp add: algebra_simps)
  ultimately show ?thesis by blast
qed

lemma generateTimeSlots_length:
  assumes gen: "generateTimeSlots date config = Some slots"
    and d: "0 < slotDuration config" and b: "0 \<le> buffer_of config" and W: "0 \<le> window"
    and win: "case window_minutes (startTime config) (endTime config) of
                None \<Rightarrow> True | Some w \<Rightarrow> w \<le> window"
  shows "length slots \<le> nat ((window + buffer_of config) div (slotDuration config + buffer_of config))"
proof (cases "slots = []")
  case True
  then show ?thesis by simp
next
  case False
  define n where "n = length slots"
  define S where "S = slotDuration config + buffer_of config"
  have Spos: "0 < S" using d b by (simp add: S_def)
  from False have last: "n - 1 < length slots" by (simp add: n_def)
  from generateTimeSlots_shape[OF gen last] obtain s0 dayEnd where
    s0: "wall_instant date (startTime config) = Some s0"
    and de: "wall_instant date (endTime config) = Some dayEnd"
    and nth: "slots ! (n - 1) = nth_slot s0 (slotDuration config) (buffer_of config) (n - 1)"
    and fit: "iv_end (slots ! (n - 1)) \<le> dayEnd"
    by blast
  from wall_instant_diff[OF s0 de] obtain w where
    w: "window_minutes (startTime config) (endTime config) = Some w"
    and diff: "dayEnd - s0 = w * MS_PER_MINUTE" by blast
  from w win have wW: "w \<le> window" by simp
  from fit nth have "(int (n - 1) * S + slotDuration config) * MS_PER_MINUTE \<le> dayEnd - s0"
    by (simp add: nth_slot_def addMinutes_def S_def algebra_simps)
  with diff have "int (n - 1) * S + slotDuration config \<le> w"
    by (simp add: MS_PER_MINUTE_def)
  moreover have "int (n - 1) = int n - 1"
    using False by (cases slots) (simp_all add: n_def)
  ultimately have "int n * S \<le> window + buffer_of config"
    using wW by (simp add: S_def algebra_simps)
  then have "(int n * S) div S \<le> (window + buffer_of config) div S"
    using Spos by (rule zdiv_mono1)
  with Spos have "int n \<le> (window + buffer_of config) div S" by simp
  then show ?thesis by (simp add: n_def S_def)
qed

lemma for_dates_length:
  assumes d: "0 < duration" and b: "0 \<le> buffer" and W: "0 \<le> window"
    and win: "list_all (window_at_most window) rules"
  shows "\<exists>res. for_dates rules evs duration buffer dates acc = Some res
           \<and> length res \<le> length acc + length dates * nat ((window + buffer) div (duration + buffer))"
proof (induction dates arbitrary: acc)
  case Nil
  show ?case by simp
next
  case (Cons date rest)
  let ?K = "nat ((window + buffer) div (duration + buffer))"
  show ?case
  proof (cases "dayRule_of rules date")
    case None
    from Cons[of acc] None show ?thesis by auto
  next
    case (Some dayRule)
    let ?cfg = "\<lparr>startTime = start_time dayRule, endTime = end_time dayRule,
                  slotDuration = duration, bufferTime = Some buffer\<rparr>"
    have buf: "buffer_of ?cfg = buffer" by (simp add: buffer_of_def)
    from Some have "dayRule \<in> set rules"
      by (auto simp: dayRule_of_def find_Some_iff)
    with win have "window_at_most window dayRule" by (simp add: list_all_iff)
    then have win': "case window_minutes (startTime ?cfg) (endTime ?cfg) of
                None \<Rightarrow> True | Some w \<Rightarrow> w \<le> window"
      by (simp add: window_at_most_def)
    have "0 < slotDuration ?cfg + buffer_of ?cfg" using d b by (simp add: buf)
    from generateTimeSlots_returns[OF this, of date] obtain daySlots where
      gen: "generateTimeSlots date ?cfg = Some daySlots" by blast
    have len: "length daySlots \<le> ?K"
      using generateTimeSlots_length[OF gen _ _ W win'] d b by (simp add: buf)
    let ?acc' = "acc @ map (\<lambda>slot. \<lparr>ts_start = iv_start slot, ts_end = iv_end slot,
                                available = isSlotAvailable (iv_start slot) (iv_end slot)
                                              (bookedSlots_of evs date)\<rparr>) daySlots"
    from Cons[of ?acc'] obtain res where
      res: "for_dates rules evs duration buffer rest ?acc' = Some res"
      and bound: "length res \<le> length ?acc' + length rest * ?K" by blast
    from res Some gen have "for_dates rules evs duration buffer (date # rest) acc = Some res"
      by simp
    moreover from bound len have "length res \<le> length acc + length (date # rest) * ?K"
      by simp
    ultimately show ?thesis by blast
  qed
qed

text \<open>
  C5, as amended. When the slot duration is positive, the buffer is not negative and the
  window of every rule the engine works with is at most \<open>window\<close> minutes (with
  \<open>window\<close> not negative), \<open>getAvailableSlots\<close> returns, and the number of slots
  is at most \<open>days * floor((window + buffer) / (duration + buffer))\<close>: the last slot of
  a day needs no buffer after it.
\<close>

theorem getAvailableSlots_length_bound:
  assumes "0 < slotDuration_or_default params"
    and "0 \<le> bufferTime_or_default params"
    and "0 \<le> window"
    and "list_all (window_at_most window) (resolve_rules (select_rules db))"
  shows "\<exists>slots. getAvailableSlots db params = Some slots
           \<and> length slots
               \<le> nat (days_or_default params)
                  * nat ((window + bufferTime_or_default params)
                         div (slotDuration_or_default params + bufferTime_or_default params))"
proof -
  let ?dates = "getDateRange (startDate params) (days_or_default params)"
  have len: "length ?dates = nat (days_or_default params)"
    by (simp add: getDateRange_def)
  from for_dates_length[OF assms, of _ ?dates "[]"] len
  show ?thesis
    by (auto simp: getAvailableSlots_def Let_def split: reply.splits)
qed

theorem getAvailableSlots_length_bound_witness:
  "0 < slotDuration_or_default
         \<lparr>startDate = monday, days = Some 2, param_slotDuration = Some 60, param_bufferTime = Some 30\<rparr>
   \<and> 0 \<le> bufferTime_or_default
         \<lparr>startDate = monday, days = Some 2, param_slotDuration = Some 60, param_bufferTime = Some 30\<rparr>
   \<and> list_all (window_at_most 540) (resolve_rules (select_rules empty_store))
   \<and> map_option length
         (getAvailableSlots empty_store
            \<lparr>startDate = monday, days = Some 2, param_slotDuration = Some 60, param_bufferTime = Some 30\<rparr>)
       = Some 12
   \<and> (12::nat) \<le> nat 2 * nat ((540 + 30) div (60 + 30))"
proof -
  let ?p = "\<lparr>startDate = monday, days = Some 2, param_slotDuration = Some 60, param_bufferTime = Some 30\<rparr>"
  have d: "0 < slotDuration_or_default ?p" by (simp add: slotDuration_or_default_def)
  have b: "0 \<le> bufferTime_or_default ?p" by (simp add: bufferTime_or_default_def)
  have w: "(0::int) \<le> 540" by simp
  have r: "list_all (window_at_most 540) (resolve_rules (select_rules empty_store))"
    by code_simp
  have run: "map_option length (getAvailableSlots empty_store ?p) = Some 12"
    by code_simp
  from getAvailableSlots_length_bound[OF d b w r] run d b r
  show ?thesis
    by (auto simp: days_or_default_def slotDuration_or_default_def bufferTime_or_default_def)
qed

text \<open>
  C5, as stated, fails: a window of 90 minutes with a duration of 30 and a buffer of 30
  holds the two slots 09:00 and 10:00 on one day, and \<open>1 * floor(90 / 60) = 1\<close>.
\<close>

theorem getAvailableSlots_length_counterexample:
  "window_minutes ''09:00'' ''10:30'' = Some 90
   \<and> getAvailableSlots
         (empty_store\<lparr>availability_rules :=
            [\<lparr>rule_id = ''r1'', user_id = ''admin'', day_of_week = 1,
              start_time = ''09:00'', end_time = ''10:30'', is_active = True\<rparr>]\<rparr>)
         \<lparr>startDate = monday, days = Some 1, param_slotDuration = Some 30, param_bufferTime = Some 30\<rparr>
       = Some [\<lparr>ts_start = 1704099600000, ts_end = 1704101400000, available = True\<rparr>,
               \<lparr>ts_start = 1704103200000, ts_end = 1704105000000, available = True\<rparr>]
   \<and> \<not> (int (length [\<lparr>ts_start = 1704099600000, ts_end = 1704101400000, available = True\<rparr>,
                       \<lparr>ts_start = 1704103200000, ts_end = 1704105000000, available = True\<rparr>])
          \<le> 1 * (90 div (30 + 30)))"
proof (intro conjI)
  show "window_minutes ''09:00'' ''10:30'' = Some 90"
    by code_simp
  show "getAvailableSlots
         (empty_store\<lparr>availability_rules :=
            [\<lparr>rule_id = ''r1'', user_id = ''admin'', day_of_week = 1,
              start_time = ''09:00'', end_time = ''10:30'', is_active = True\<rparr>]\<rparr>)
         \<lparr>startDate = monday, days = Some 1, param_slotDuration = Some 30, param_bufferTime = Some 30\<rparr>
       = Some [\<lparr>ts_start = 1704099600000, ts_end = 1704101400000, available = True\<rparr>,
               \<lparr>ts_start = 1704103200000, ts_end = 1704105000000, available = True\<rparr>]"
    by code_simp
  show "\<not> (int (length [\<lparr>ts_start = 1704099600000, ts_end = 1704101400000, available = True\<rparr>,
                       \<lparr>ts_start = 1704103200000, ts_end = 1704105000000, available = True\<rparr>])
          \<le> 1 * (90 div (30 + 30)))"
    by simp
qed

section \<open>Failure of the event read\<close>

text \<open>
  C6. When the query for the events does not succeed, whether it resolves to an error or
  throws, \<open>getAvailableSlots\<close> returns the empty list.
\<close>

theorem getAvailableSlots_events_read_fails:
  assumes "outcome_of db SelectEvents \<noteq> Succeeds"
  shows "getAvailableSlots db params = Some []"
proof (cases "outcome_of db SelectEvents")
  case Succeeds
  with assms show ?thesis by simp
next
  case (ReturnsError m)
  then show ?thesis
    by (simp add: getAvailableSlots_def Let_def select_events_def)
next
  case (Throws m)
  then show ?thesis
    by (simp add: getAvailableSlots_def Let_def select_events_def)
qed

theorem getAvailableSlots_events_read_fails_witness:
  "outcome_of (empty_store\<lparr>outcome_of := (outcome_of empty_store)(SelectEvents := Throws ''fetch failed'')\<rparr>)
     SelectEvents \<noteq> Succeeds
   \<and> getAvailableSlots
        (empty_store\<lparr>outcome_of := (outcome_of empty_store)(SelectEvents := Throws ''fetch failed'')\<rparr>)
        \<lparr>startDate = monday, days = Some 1, param_slotDuration = Some 240, param_bufferTime = None\<rparr>
      = Some []
   \<and> map_option length
        (getAvailableSlots empty_store
           \<lparr>startDate = monday, days = Some 1, param_slotDuration = Some 240, param_bufferTime = None\<rparr>)
      = Some 2"
proof -
  let ?db = "empty_store\<lparr>outcome_of := (outcome_of empty_store)(SelectEvents := Throws ''fetch failed'')\<rparr>"
  have f: "outcome_of ?db SelectEvents \<noteq> Succeeds" by simp
  have ok: "map_option length
        (getAvailableSlots empty_store
           \<lparr>startDate = monday, days = Some 1, param_slotDuration = Some 240, param_bufferTime = None\<rparr>)
      = Some 2"
    by code_simp
  from getAvailableSlots_events_read_fails[OF f] f ok show ?thesis by simp
qed

section \<open>The settings and the engine\<close>

lemma select_events_settings:
  "select_events (db\<lparr>calendar_settings := cs\<rparr>) a b = select_events db a b"
  by (simp add: select_events_def split: outcome.splits)

lemma select_rules_settings:
  "select_rules (db\<lparr>calendar_settings := cs\<rparr>) = select_rules db"
  by (simp add: select_rules_def split: outcome.splits)

text \<open>
  C10. The result of \<open>getAvailableSlots\<close> is the same whatever the settings table
  holds. In the store \<open>notice_store\<close> the minimum notice is 12 hours and the advance
  horizon 7 days, and a call at 08:30 on the Monday returns, marked available, the slot at
  09:00 of the same day (which lacks the minimum notice) and the slot of the next Monday
  (which lies beyond the horizon). The calendar component, with its own constants of
  12 hours and 7 days, counts neither.
\<close>

theorem getAvailableSlots_ignores_settings:
  "getAvailableSlots (db\<lparr>calendar_settings := settingsA\<rparr>) params
     = getAvailableSlots (db\<lparr>calendar_settings := settingsB\<rparr>) params
   \<and> map min_notice_hours (calendar_settings notice_store) = [12]
   \<and> map advance_booking_days (calendar_settings notice_store) = [7]
   \<and> getAvailableSlots notice_store
         \<lparr>startDate = addMinutes monday 510, days = Some 10,
          param_slotDuration = None, param_bufferTime = None\<rparr>
       = Some [\<lparr>ts_start = 1704099600000, ts_end = 1704101400000, available = True\<rparr>,
               \<lparr>ts_start = 1704272400000, ts_end = 1704274200000, available = True\<rparr>,
               \<lparr>ts_start = 1704704400000, ts_end = 1704706200000, available = True\<rparr>,
               \<lparr>ts_start = 1704877200000, ts_end = 1704879000000, available = True\<rparr>]
   \<and> \<not> hasMinimumNotice (addMinutes monday 510) 1704099600000 12
   \<and> addDays (addMinutes monday 510) 7 < 1704704400000
   \<and> \<not> Calendar_counts_slot (addMinutes monday 510)
          \<lparr>ts_start = 1704099600000, ts_end = 1704101400000, available = True\<rparr>
   \<and> \<not> Calendar_counts_slot (addMinutes monday 510)
          \<lparr>ts_start = 1704704400000, ts_end = 1704706200000, available = True\<rparr>"
proof (intro conjI)
  show "getAvailableSlots (db\<lparr>calendar_settings := settingsA\<rparr>) params
          = getAvailableSlots (db\<lparr>calendar_settings := settingsB\<rparr>) params"
    unfolding getAvailableSlots_def select_events_settings select_rules_settings
    by (rule refl)
  show "getAvailableSlots notice_store
         \<lparr>startDate = addMinutes monday 510, days = Some 10,
          param_slotDuration = None, param_bufferTime = None\<rparr>
       = Some [\<lparr>ts_start = 1704099600000, ts_end = 1704101400000, available = True\<rparr>,
               \<lparr>ts_start = 1704272400000, ts_end = 1704274200000, available = True\<rparr>,
               \<lparr>ts_start = 1704704400000, ts_end = 1704706200000, available = True\<rparr>,
               \<lparr>ts_start = 1704877200000, ts_end = 1704879000000, available = True\<rparr>]"
    by code_simp
qed (simp_all add: notice_store_def empty_store_def hasMinimumNotice_def isAfter_def
       addMinutes_def addDays_def monday_def MS_PER_MINUTE_def MS_PER_DAY_def
       Calendar_counts_slot_def)

theorem getAvailableSlots_ignores_settings_witness:
  "getAvailableSlots
     (notice_store\<lparr>calendar_settings :=
        [\<lparr>cs_user_id = ''admin'', slot_duration = 30, buffer_time = 0,
          advance_booking_days = 365, min_notice_hours = 0\<rparr>]\<rparr>)
     \<lparr>startDate = addMinutes monday 510, days = Some 10,
      param_slotDuration = None, param_bufferTime = None\<rparr>
   = getAvailableSlots
       (notice_store\<lparr>calendar_settings :=
          [\<lparr>cs_user_id = ''admin'', slot_duration = 30, buffer_time = 0,
            advance_booking_days = 1, min_notice_hours = 168\<rparr>]\<rparr>)
       \<lparr>startDate = addMinutes monday 510, days = Some 10,
        param_slotDuration = None, param_bufferTime = None\<rparr>"
  using getAvailableSlots_ignores_settings
    [where db = notice_store
       and settingsA = "[\<lparr>cs_user_id = ''admin'', slot_duration = 30, buffer_time = 0,
           advance_booking_days = 365, min_notice_hours = 0\<rparr>]"
       and params = "\<lparr>startDate = addMinutes monday 510, days = Some 10,
          param_slotDuration = None, param_bufferTime = None\<rparr>"
       and settingsB = "[\<lparr>cs_user_id = ''admin'', slot_duration = 30, buffer_time = 0,
           advance_booking_days = 1, min_notice_hours = 168\<rparr>]"]
  by simp

section \<open>The effective schedule\<close>

lemma find_filter:
  "find P (filter Q xs) = find (\<lambda>x. Q x \<and> P x) xs"
  by (induction xs) auto

lemma DEFAULT_SCHEDULE_nth:
  assumes "d < 7"
  shows "DEFAULT_SCHEDULE ! d
         = \<lparr>ds_day_of_week = int d, ds_start_time = ''09:00'', ds_end_time = ''18:00'',
            ds_is_active = (1 \<le> d \<and> d \<le> 5)\<rparr>"
proof -
  from assms have "d \<in> {0, 1, 2, 3, 4, 5, 6}" by auto
  then show ?thesis
    by (auto simp: DEFAULT_SCHEDULE_def)
qed

lemma merge_with_defaults_nth:
  assumes "d < 7"
  shows "merge_with_defaults rows ! d
         = (case find (\<lambda>r. ds_day_of_week r = int d) rows of
              Some r \<Rightarrow> r | None \<Rightarrow> DEFAULT_SCHEDULE ! d)"
proof -
  have len: "length DEFAULT_SCHEDULE = 7" by (simp add: DEFAULT_SCHEDULE_def)
  have day: "ds_day_of_week (DEFAULT_SCHEDULE ! d) = int d"
    by (simp add: DEFAULT_SCHEDULE_nth[OF assms])
  show ?thesis
    unfolding merge_with_defaults_def
    using assms len by (simp add: day split: option.splits)
qed

lemma dayRule_of_default:
  "map_option (\<lambda>r. (start_time r, end_time r, is_active r))
     (dayRule_of DEFAULT_AVAILABILITY_RULES date)
   = (if 1 \<le> getDayOfWeek date \<and> getDayOfWeek date \<le> 5
      then Some (''09:00'', ''18:00'', True) else None)"
  by (auto simp: dayRule_of_def DEFAULT_AVAILABILITY_RULES_def)

lemma select_events_rules_update:
  "select_events (db\<lparr>availability_rules := rs\<rparr>) a b = select_events db a b"
  by (simp add: select_events_def split: outcome.splits)

lemma select_rules_active:
  assumes "outcome_of db SelectRules = Succeeds"
    and "\<exists>r \<in> set (availability_rules db). is_active r"
  shows "select_rules db = Reply (filter is_active (availability_rules db))"
    and "resolve_rules (select_rules db) = filter is_active (availability_rules db)"
proof -
  show sel: "select_rules db = Reply (filter is_active (availability_rules db))"
    using assms(1) by (simp add: select_rules_def)
  from assms(2) have "filter is_active (availability_rules db) \<noteq> []"
    by (auto simp: filter_empty_conv)
  then show "resolve_rules (select_rules db) = filter is_active (availability_rules db)"
    by (simp add: sel resolve_rules_def)
qed

lemma getAvailableSlots_defaults_when_empty:
  assumes "availability_rules db = []"
  shows "getAvailableSlots db params
         = getAvailableSlots (db\<lparr>availability_rules := DEFAULT_AVAILABILITY_RULES\<rparr>) params"
proof -
  let ?db' = "db\<lparr>availability_rules := DEFAULT_AVAILABILITY_RULES\<rparr>"
  have all_active: "filter is_active DEFAULT_AVAILABILITY_RULES = DEFAULT_AVAILABILITY_RULES"
    and some: "DEFAULT_AVAILABILITY_RULES \<noteq> []"
    by (simp_all add: DEFAULT_AVAILABILITY_RULES_def)
  show ?thesis
  proof (cases "outcome_of db SelectRules")
    case Succeeds
    then have sel: "select_rules db = Reply []"
      "select_rules ?db' = Reply DEFAULT_AVAILABILITY_RULES"
      using assms by (simp_all add: select_rules_def all_active)
    have res: "resolve_rules (Reply []) = DEFAULT_AVAILABILITY_RULES"
      "resolve_rules (Reply DEFAULT_AVAILABILITY_RULES) = DEFAULT_AVAILABILITY_RULES"
      using some by (simp_all add: resolve_rules_def)
    show ?thesis
      unfolding getAvailableSlots_def select_events_rules_update sel reply.case res
      by (rule refl)
  next
    case (ReturnsError m)
    then have sel: "select_rules db = ReplyError m" "select_rules ?db' = ReplyError m"
      by (simp_all add: select_rules_def)
    show ?thesis
      unfolding getAvailableSlots_def select_events_rules_update sel
      by (rule refl)
  next
    case (Throws m)
    then have sel: "select_rules db = Thrown m" "select_rules ?db' = Thrown m"
      by (simp_all add: select_rules_def)
    show ?thesis
      unfolding getAvailableSlots_def select_events_rules_update sel
      by (rule refl)
  qed
qed

lemma for_dates_no_rule:
  assumes "dayRule_of rules date = None"
  shows "for_dates rules evs d b [date] acc = Some acc"
  using assms by simp

lemma getAvailableSlots_no_rule_no_slots:
  assumes ok: "outcome_of db SelectRules = Succeeds"
    and act: "\<exists>r \<in> set (availability_rules db). is_active r"
    and one: "days_or_default params = 1"
    and none: "find (\<lambda>r. is_active r \<and> day_of_week r = getDayOfWeek (startDate params))
                 (availability_rules db) = None"
  shows "getAvailableSlots db params = Some []"
proof -
  have range: "getDateRange (startDate params) (days_or_default params) = [startDate params]"
    by (simp add: one getDateRange_def addDays_def)
  have norule: "dayRule_of (filter is_active (availability_rules db)) (startDate params) = None"
    using none by (simp add: dayRule_of_def find_filter)
  from for_dates_no_rule[OF this]
  have skip: "for_dates (filter is_active (availability_rules db)) evs d b [startDate params] []
              = Some []" for evs d b .
  have res: "resolve_rules (Reply (filter is_active (availability_rules db)))
             = filter is_active (availability_rules db)"
    using select_rules_active[OF ok act] by simp
  show ?thesis
    unfolding getAvailableSlots_def range select_rules_active(1)[OF ok act] reply.case res
    by (simp add: norule split: reply.splits)
qed

lemma for_dates_origin:
  assumes "for_dates rules evs d b dates acc = Some res" and "s \<in> set res"
  shows "s \<in> set acc
         \<or> (\<exists>date \<in> set dates. \<exists>r daySlots.
               dayRule_of rules date = Some r
               \<and> generateTimeSlots date
                    \<lparr>startTime = start_time r, endTime = end_time r,
                     slotDuration = d, bufferTime = Some b\<rparr> = Some daySlots
               \<and> \<lparr>iv_start = ts_start s, iv_end = ts_end s\<rparr> \<in> set daySlots)"
  using assms
proof (induction dates arbitrary: acc)
  case Nil
  then show ?case by simp
next
  case (Cons date rest)
  show ?case
  proof (cases "dayRule_of rules date")
    case None
    with Cons.prems have "for_dates rules evs d b rest acc = Some res" by simp
    from Cons.IH[OF this Cons.prems(2)] show ?thesis by auto
  next
    case (Some r)
    let ?cfg = "\<lparr>startTime = start_time r, endTime = end_time r,
                  slotDuration = d, bufferTime = Some b\<rparr>"
    from Cons.prems(1) Some obtain daySlots where
      gen: "generateTimeSlots date ?cfg = Some daySlots"
      by (cases "generateTimeSlots date ?cfg") auto
    let ?new = "map (\<lambda>slot. \<lparr>ts_start = iv_start slot, ts_end = iv_end slot,
                               available = isSlotAvailable (iv_start slot) (iv_end slot)
                                             (bookedSlots_of evs date)\<rparr>) daySlots"
    from Cons.prems(1) Some gen
    have "for_dates rules evs d b rest (acc @ ?new) = Some res" by simp
    from Cons.IH[OF this Cons.prems(2)]
    consider "s \<in> set acc" | "s \<in> set ?new"
      | "\<exists>date \<in> set rest. \<exists>r daySlots.
               dayRule_of rules date = Some r
               \<and> generateTimeSlots date
                    \<lparr>startTime = start_time r, endTime = end_time r,
                     slotDuration = d, bufferTime = Some b\<rparr> = Some daySlots
               \<and> \<lparr>iv_start = ts_start s, iv_end = ts_end s\<rparr> \<in> set daySlots"
      by auto
    then show ?thesis
    proof cases
      case 1
      then show ?thesis by simp
    next
      case 2
      then obtain slot where slot: "slot \<in> set daySlots"
        and ends: "ts_start s = iv_start slot" "ts_end s = iv_end slot"
        by auto
      obtain a c where "slot = \<lparr>iv_start = a, iv_end = c\<rparr>"
        by (cases slot) simp
      with slot ends have "\<lparr>iv_start = ts_start s, iv_end = ts_end s\<rparr> \<in> set daySlots"
        by simp
      with Some gen show ?thesis by auto
    next
      case 3
      then show ?thesis by auto
    qed
  qed
qed

lemma getAvailableSlots_slot_origin:
  assumes ok: "outcome_of db SelectRules = Succeeds"
    and act: "\<exists>r \<in> set (availability_rules db). is_active r"
    and res: "getAvailableSlots db params = Some slots"
    and s: "s \<in> set slots"
  shows "\<exists>date \<in> set (getDateRange (startDate params) (days_or_default params)).
           \<exists>r daySlots.
             find (\<lambda>r. is_active r \<and> day_of_week r = getDayOfWeek date) (availability_rules db)
               = Some r
             \<and> generateTimeSlots date
                  \<lparr>startTime = start_time r, endTime = end_time r,
                   slotDuration = slotDuration_or_default params,
                   bufferTime = Some (bufferTime_or_default params)\<rparr> = Some daySlots
             \<and> \<lparr>iv_start = ts_start s, iv_end = ts_end s\<rparr> \<in> set daySlots"
proof -
  let ?dates = "getDateRange (startDate params) (days_or_default params)"
  let ?rules = "filter is_active (availability_rules db)"
  from s have ne: "slots \<noteq> []" by auto
  from res ne obtain evs where
    "for_dates ?rules evs (slotDuration_or_default params) (bufferTime_or_default params)
       ?dates [] = Some slots"
    unfolding getAvailableSlots_def select_rules_active(1)[OF ok act] reply.case
      select_rules_active(2)[OF ok act, unfolded select_rules_active(1)[OF ok act]]
    by (auto simp: Let_def split: if_splits reply.splits)
  from for_dates_origin[OF this s] show ?thesis
    by (simp add: dayRule_of_def find_filter)
qed

text \<open>
  C4, as amended. \<open>getSchedule\<close>: when the schedule query succeeds, the result has the
  seven weekdays in order, and weekday \<open>d\<close> is the first persisted row for \<open>d\<close>
  when there is one and the default for \<open>d\<close> otherwise (so with no persisted row it
  is the default schedule: Monday to Friday active from 09:00 to 18:00, Saturday and
  Sunday inactive). \<open>getAvailableSlots\<close>: with no persisted rule the engine works
  with the default rules (Monday to Friday from 09:00 to 18:00, no rule for Saturday and
  Sunday), and the call returns what it returns on a store that holds the default rules.
  When the rule query succeeds and some persisted rule is active, the rule of a day is the
  first active persisted rule for its weekday, and a weekday without one has no rule:
  nothing is filled in from the defaults. A call for one day whose weekday has no active
  persisted rule returns the empty list, and every slot of any returned list is a slot
  that \<open>generateTimeSlots\<close> gives for a day of the range under the first active
  persisted rule of that day's weekday.
\<close>

theorem schedule_resolution:
  "(select_schedule db uid = Reply rows \<longrightarrow>
      (\<exists>sched. getSchedule db (Some uid) = Success sched \<and> length sched = 7
         \<and> (\<forall>d<7. sched ! d = (case find (\<lambda>r. ds_day_of_week r = int d) rows of
                                   Some r \<Rightarrow> r | None \<Rightarrow> DEFAULT_SCHEDULE ! d))))
   \<and> (\<forall>d<7. DEFAULT_SCHEDULE ! d
               = \<lparr>ds_day_of_week = int d, ds_start_time = ''09:00'', ds_end_time = ''18:00'',
                  ds_is_active = (1 \<le> d \<and> d \<le> 5)\<rparr>)
   \<and> (availability_rules db = [] \<longrightarrow>
        resolve_rules (select_rules db) = DEFAULT_AVAILABILITY_RULES)
   \<and> (\<forall>date. map_option (\<lambda>r. (start_time r, end_time r, is_active r))
                 (dayRule_of DEFAULT_AVAILABILITY_RULES date)
               = (if 1 \<le> getDayOfWeek date \<and> getDayOfWeek date \<le> 5
                  then Some (''09:00'', ''18:00'', True) else None))
   \<and> (outcome_of db SelectRules = Succeeds \<and> (\<exists>r \<in> set (availability_rules db). is_active r) \<longrightarrow>
        (\<forall>date. dayRule_of (resolve_rules (select_rules db)) date
                 = find (\<lambda>r. is_active r \<and> day_of_week r = getDayOfWeek date)
                     (availability_rules db)))
   \<and> (availability_rules db = [] \<longrightarrow>
        getAvailableSlots db params
          = getAvailableSlots (db\<lparr>availability_rules := DEFAULT_AVAILABILITY_RULES\<rparr>) params)
   \<and> (outcome_of db SelectRules = Succeeds \<and> (\<exists>r \<in> set (availability_rules db). is_active r)
        \<and> days_or_default params = 1
        \<and> find (\<lambda>r. is_active r \<and> day_of_week r = getDayOfWeek (startDate params))
              (availability_rules db) = None \<longrightarrow>
        getAvailableSlots db params = Some [])
   \<and> (outcome_of db SelectRules = Succeeds \<and> (\<exists>r \<in> set (availability_rules db). is_active r)
        \<and> getAvailableSlots db params = Some slots \<longrightarrow>
        (\<forall>s \<in> set slots.
           \<exists>date \<in> set (getDateRange (startDate params) (days_or_default params)).
             \<exists>r daySlots.
               find (\<lambda>r. is_active r \<and> day_of_week r = getDayOfWeek date) (availability_rules db)
                 = Some r
               \<and> generateTimeSlots date
                    \<lparr>startTime = start_time r, endTime = end_time r,
                     slotDuration = slotDuration_or_default params,
                     bufferTime = Some (bufferTime_or_default params)\<rparr> = Some daySlots
               \<and> \<lparr>iv_start = ts_start s, iv_end = ts_end s\<rparr> \<in> set daySlots))"
proof (intro conjI impI allI ballI)
  assume sel: "select_schedule db uid = Reply rows"
  show "\<exists>sched. getSchedule db (Some uid) = Success sched \<and> length sched = 7
         \<and> (\<forall>d<7. sched ! d = (case find (\<lambda>r. ds_day_of_week r = int d) rows of
                                   Some r \<Rightarrow> r | None \<Rightarrow> DEFAULT_SCHEDULE ! d))"
  proof (cases "rows = []")
    case True
    with sel have "getSchedule db (Some uid) = Success DEFAULT_SCHEDULE"
      by (simp add: getSchedule_def)
    moreover have "length DEFAULT_SCHEDULE = 7" by (simp add: DEFAULT_SCHEDULE_def)
    ultimately show ?thesis using True by simp
  next
    case False
    with sel have "getSchedule db (Some uid) = Success (merge_with_defaults rows)"
      by (simp add: getSchedule_def)
    moreover have "length (merge_with_defaults rows) = 7"
      by (simp add: merge_with_defaults_def DEFAULT_SCHEDULE_def)
    ultimately show ?thesis
      by (simp add: merge_with_defaults_nth)
  qed
next
  fix d :: nat assume "d < 7"
  then show "DEFAULT_SCHEDULE ! d
               = \<lparr>ds_day_of_week = int d, ds_start_time = ''09:00'', ds_end_time = ''18:00'',
                  ds_is_active = (1 \<le> d \<and> d \<le> 5)\<rparr>"
    by (rule DEFAULT_SCHEDULE_nth)
next
  assume "availability_rules db = []"
  then show "resolve_rules (select_rules db) = DEFAULT_AVAILABILITY_RULES"
    by (simp add: resolve_rules_def select_rules_def split: outcome.splits)
next
  fix date
  show "map_option (\<lambda>r. (start_time r, end_time r, is_active r))
                 (dayRule_of DEFAULT_AVAILABILITY_RULES date)
               = (if 1 \<le> getDayOfWeek date \<and> getDayOfWeek date \<le> 5
                  then Some (''09:00'', ''18:00'', True) else None)"
    by (rule dayRule_of_default)
next
  fix date
  assume a: "outcome_of db SelectRules = Succeeds \<and> (\<exists>r \<in> set (availability_rules db). is_active r)"
  then have "filter is_active (availability_rules db) \<noteq> []"
    by (auto simp: filter_empty_conv)
  with a have "resolve_rules (select_rules db) = filter is_active (availability_rules db)"
    by (simp add: resolve_rules_def select_rules_def)
  then show "dayRule_of (resolve_rules (select_rules db)) date
                 = find (\<lambda>r. is_active r \<and> day_of_week r = getDayOfWeek date)
                     (availability_rules db)"
    by (simp add: dayRule_of_def find_filter)
next
  assume "availability_rules db = []"
  then show "getAvailableSlots db params
          = getAvailableSlots (db\<lparr>availability_rules := DEFAULT_AVAILABILITY_RULES\<rparr>) params"
    by (rule getAvailableSlots_defaults_when_empty)
next
  assume "outcome_of db SelectRules = Succeeds \<and> (\<exists>r \<in> set (availability_rules db). is_active r)
        \<and> days_or_default params = 1
        \<and> find (\<lambda>r. is_active r \<and> day_of_week r = getDayOfWeek (startDate params))
              (availability_rules db) = None"
  then show "getAvailableSlots db params = Some []"
    using getAvailableSlots_no_rule_no_slots[of db params] by blast
next
  fix s
  assume "outcome_of db SelectRules = Succeeds \<and> (\<exists>r \<in> set (availability_rules db). is_active r)
        \<and> getAvailableSlots db params = Some slots"
    and "s \<in> set slots"
  then show "\<exists>date \<in> set (getDateRange (startDate params) (days_or_default params)).
             \<exists>r daySlots.
               find (\<lambda>r. is_active r \<and> day_of_week r = getDayOfWeek date) (availability_rules db)
                 = Some r
               \<and> generateTimeSlots date
                    \<lparr>startTime = start_time r, endTime = end_time r,
                     slotDuration = slotDuration_or_default params,
                     bufferTime = Some (bufferTime_or_default params)\<rparr> = Some daySlots
               \<and> \<lparr>iv_start = ts_start s, iv_end = ts_end s\<rparr> \<in> set daySlots"
    using getAvailableSlots_slot_origin[of db params slots s] by blast
qed

text \<open>
  C4, as stated, fails for the engine: with a single persisted rule, for Monday, Tuesday
  is a weekday without a persisted row and with a default rule, yet the engine has no
  rule for a Tuesday and returns no slot for it, where the defaults alone give 18; the
  admin read of the same store does show Tuesday as active.
\<close>

theorem schedule_resolution_counterexample:
  "availability_rules monday_only_store \<noteq> []
   \<and> getDayOfWeek (addDays monday 1) = 2
   \<and> dayRule_of (availability_rules monday_only_store) (addDays monday 1) = None
   \<and> dayRule_of DEFAULT_AVAILABILITY_RULES (addDays monday 1) \<noteq> None
   \<and> dayRule_of (resolve_rules (select_rules monday_only_store)) (addDays monday 1) = None
   \<and> getAvailableSlots monday_only_store
        \<lparr>startDate = addDays monday 1, days = Some 1,
         param_slotDuration = None, param_bufferTime = None\<rparr>
      = Some []
   \<and> map_option length
        (getAvailableSlots empty_store
           \<lparr>startDate = addDays monday 1, days = Some 1,
            param_slotDuration = None, param_bufferTime = None\<rparr>)
      = Some 18
   \<and> (case getSchedule monday_only_store (Some ''admin'') of
         Success sched \<Rightarrow> ds_is_active (sched ! 2) | Failure e \<Rightarrow> False)"
  by code_simp

theorem schedule_resolution_witness:
  "select_schedule monday_only_store ''admin''
     = Reply [\<lparr>ds_day_of_week = 1, ds_start_time = ''10:00'', ds_end_time = ''11:00'',
               ds_is_active = True\<rparr>]
   \<and> (\<exists>sched. getSchedule monday_only_store (Some ''admin'') = Success sched
          \<and> length sched = 7
          \<and> sched ! 1 = \<lparr>ds_day_of_week = 1, ds_start_time = ''10:00'', ds_end_time = ''11:00'',
                          ds_is_active = True\<rparr>
          \<and> sched ! 2 = DEFAULT_SCHEDULE ! 2)
   \<and> availability_rules empty_store = []
   \<and> resolve_rules (select_rules empty_store) = DEFAULT_AVAILABILITY_RULES
   \<and> outcome_of monday_only_store SelectRules = Succeeds
   \<and> (\<exists>r \<in> set (availability_rules monday_only_store). is_active r)
   \<and> dayRule_of (resolve_rules (select_rules monday_only_store)) monday
       = Some \<lparr>rule_id = ''r1'', user_id = ''admin'', day_of_week = 1,
                start_time = ''10:00'', end_time = ''11:00'', is_active = True\<rparr>
   \<and> dayRule_of (resolve_rules (select_rules monday_only_store)) (addDays monday 1) = None
   \<and> getAvailableSlots empty_store
         \<lparr>startDate = addDays monday 1, days = Some 1,
          param_slotDuration = None, param_bufferTime = None\<rparr>
       = getAvailableSlots (empty_store\<lparr>availability_rules := DEFAULT_AVAILABILITY_RULES\<rparr>)
           \<lparr>startDate = addDays monday 1, days = Some 1,
            param_slotDuration = None, param_bufferTime = None\<rparr>
   \<and> days_or_default
         \<lparr>startDate = addDays monday 1, days = Some 1,
          param_slotDuration = None, param_bufferTime = None\<rparr> = 1
   \<and> find (\<lambda>r. is_active r \<and> day_of_week r = getDayOfWeek (addDays monday 1))
         (availability_rules monday_only_store) = None
   \<and> getAvailableSlots monday_only_store
         \<lparr>startDate = addDays monday 1, days = Some 1,
          param_slotDuration = None, param_bufferTime = None\<rparr>
       = Some []
   \<and> getAvailableSlots monday_only_store
         \<lparr>startDate = monday, days = Some 2,
          param_slotDuration = None, param_bufferTime = None\<rparr>
       = Some [\<lparr>ts_start = 1704103200000, ts_end = 1704105000000, available = True\<rparr>,
               \<lparr>ts_start = 1704105000000, ts_end = 1704106800000, available = True\<rparr>]
   \<and> (\<exists>date \<in> set (getDateRange monday 2). \<exists>r daySlots.
         find (\<lambda>r. is_active r \<and> day_of_week r = getDayOfWeek date)
           (availability_rules monday_only_store) = Some r
         \<and> generateTimeSlots date
              \<lparr>startTime = start_time r, endTime = end_time r,
               slotDuration = 30, bufferTime = Some 0\<rparr> = Some daySlots
         \<and> \<lparr>iv_start = 1704103200000, iv_end = 1704105000000\<rparr> \<in> set daySlots)"
proof -
  let ?tue = "\<lparr>startDate = addDays monday 1, days = Some 1,
               param_slotDuration = None, param_bufferTime = None\<rparr>"
  let ?two = "\<lparr>startDate = monday, days = Some 2,
               param_slotDuration = None, param_bufferTime = None\<rparr>"
  let ?found = "[\<lparr>ts_start = 1704103200000, ts_end = 1704105000000, available = True\<rparr>,
                 \<lparr>ts_start = 1704105000000, ts_end = 1704106800000, available = True\<rparr>]"
  have one: "days_or_default ?tue = 1" by (simp add: days_or_default_def)
  have tue_none: "find (\<lambda>r. is_active r \<and> day_of_week r = getDayOfWeek (addDays monday 1))
                    (availability_rules monday_only_store) = None"
    by code_simp
  have run: "getAvailableSlots monday_only_store ?two = Some ?found"
    by code_simp
  let ?row = "\<lparr>ds_day_of_week = 1, ds_start_time = ''10:00'', ds_end_time = ''11:00'',
               ds_is_active = True\<rparr>"
  have sel: "select_schedule monday_only_store ''admin'' = Reply [?row]"
    by code_simp
  have none: "availability_rules empty_store = []"
    by (simp add: empty_store_def)
  have ok: "outcome_of monday_only_store SelectRules = Succeeds"
    by (simp add: monday_only_store_def empty_store_def)
  have act: "\<exists>r \<in> set (availability_rules monday_only_store). is_active r"
    by (simp add: monday_only_store_def empty_store_def)
  have days: "getDayOfWeek monday = 1" "getDayOfWeek (addDays monday 1) = 2"
    by code_simp+
  note at_monday_only = schedule_resolution[where db = monday_only_store and uid = "''admin''"
                                              and rows = "[?row]"]
  note at_empty = schedule_resolution[where db = empty_store and uid = "''admin''" and rows = "[]"]
  from at_monday_only sel obtain sched where
    s: "getSchedule monday_only_store (Some ''admin'') = Success sched" "length sched = 7"
    and nth: "\<forall>d<7. sched ! d = (case find (\<lambda>r. ds_day_of_week r = int d) [?row] of
                                    Some r \<Rightarrow> r | None \<Rightarrow> DEFAULT_SCHEDULE ! d)"
    by blast
  from nth[rule_format, of 1] have n1: "sched ! 1 = ?row" by simp
  from nth[rule_format, of 2] have n2: "sched ! 2 = DEFAULT_SCHEDULE ! 2" by simp
  from at_empty none have e1: "resolve_rules (select_rules empty_store) = DEFAULT_AVAILABILITY_RULES"
    by blast
  from at_monday_only ok act
  have e2: "\<forall>date. dayRule_of (resolve_rules (select_rules monday_only_store)) date
                 = find (\<lambda>r. is_active r \<and> day_of_week r = getDayOfWeek date)
                     (availability_rules monday_only_store)"
    by blast
  have m: "dayRule_of (resolve_rules (select_rules monday_only_store)) monday
       = Some \<lparr>rule_id = ''r1'', user_id = ''admin'', day_of_week = 1,
                start_time = ''10:00'', end_time = ''11:00'', is_active = True\<rparr>"
    unfolding e2[rule_format] days by (simp add: monday_only_store_def empty_store_def)
  have t: "dayRule_of (resolve_rules (select_rules monday_only_store)) (addDays monday 1) = None"
    unfolding e2[rule_format] days by (simp add: monday_only_store_def empty_store_def)
  from schedule_resolution[where db = empty_store and params = ?tue] none
  have e3: "getAvailableSlots empty_store ?tue
            = getAvailableSlots (empty_store\<lparr>availability_rules := DEFAULT_AVAILABILITY_RULES\<rparr>) ?tue"
    by blast
  from schedule_resolution[where db = monday_only_store and params = ?tue] ok act one tue_none
  have e4: "getAvailableSlots monday_only_store ?tue = Some []"
    by simp
  from schedule_resolution[where db = monday_only_store and params = ?two and slots = ?found]
    ok act run
  have "\<forall>s \<in> set ?found.
          \<exists>date \<in> set (getDateRange (startDate ?two) (days_or_default ?two)). \<exists>r daySlots.
            find (\<lambda>r. is_active r \<and> day_of_week r = getDayOfWeek date)
              (availability_rules monday_only_store) = Some r
            \<and> generateTimeSlots date
                 \<lparr>startTime = start_time r, endTime = end_time r,
                  slotDuration = slotDuration_or_default ?two,
                  bufferTime = Some (bufferTime_or_default ?two)\<rparr> = Some daySlots
            \<and> \<lparr>iv_start = ts_start s, iv_end = ts_end s\<rparr> \<in> set daySlots"
    by blast
  then have e5: "\<exists>date \<in> set (getDateRange monday 2). \<exists>r daySlots.
         find (\<lambda>r. is_active r \<and> day_of_week r = getDayOfWeek date)
           (availability_rules monday_only_store) = Some r
         \<and> generateTimeSlots date
              \<lparr>startTime = start_time r, endTime = end_time r,
               slotDuration = 30, bufferTime = Some 0\<rparr> = Some daySlots
         \<and> \<lparr>iv_start = 1704103200000, iv_end = 1704105000000\<rparr> \<in> set daySlots"
    by (simp add: days_or_default_def slotDuration_or_default_def bufferTime_or_default_def)
  from sel s n1 n2 none e1 ok act m t e3 one tue_none e4 run e5 show ?thesis by blast
qed

section \<open>Past slots\<close>

text \<open>
  C7, as amended. When the input passes validation and the candidate start is strictly
  before the acceptance time, the call is rejected with the past-slot message and the
  store is unchanged.
\<close>

theorem createBooking_past_slot:
  assumes "slot_start data < now"
  shows "createBooking db now (Valid data)
         = (Failure ''No se puede reservar un horario pasado'', db)"
  using assms by (simp add: createBooking_def)

theorem createBooking_past_slot_witness:
  "slot_start ana < 1704105000001
   \<and> createBooking booked_store 1704105000001 (Valid ana)
       = (Failure ''No se puede reservar un horario pasado'', booked_store)"
proof -
  have past: "slot_start ana < 1704105000001" by (simp add: ana_def)
  from createBooking_past_slot[OF past] past show ?thesis by simp
qed

text \<open>
  C7, as stated, fails at the boundary: a candidate that starts exactly at the acceptance
  time is not strictly in the future, and the call accepts it and writes the event and
  the booking.
\<close>

theorem createBooking_past_slot_counterexample:
  "\<not> (1704105000000 < slot_start ana)
   \<and> fst (createBooking empty_store 1704105000000 (Valid ana)) = Success 1
   \<and> events (snd (createBooking empty_store 1704105000000 (Valid ana)))
       = [\<lparr>ev_id = 1, title = ''Reserva: Ana'', description = None,
           ev_start_time = 1704105000000, ev_end_time = 1704108600000,
           is_public = True, event_type = ''booking''\<rparr>]
   \<and> bookings (snd (createBooking empty_store 1704105000000 (Valid ana)))
       = [\<lparr>bk_id = 1, event_id = 1, bk_name = ''Ana'', bk_email = ''ana@example.com'',
           bk_phone = None, bk_notes = None\<rparr>]"
  by code_simp

section \<open>Rollback of the event\<close>

lemma fold_max_ge:
  "a \<le> fold max ids (a::nat) \<and> (\<forall>x \<in> set ids. x \<le> fold max ids a)"
proof (induction ids arbitrary: a)
  case Nil
  show ?case by simp
next
  case (Cons i ids)
  from Cons[of "max i a"] show ?case by auto
qed

lemma fresh_id_fresh: "fresh_id ids \<notin> set ids"
proof
  assume "fresh_id ids \<in> set ids"
  with fold_max_ge[of 0 ids] have "fresh_id ids \<le> fold max ids 0" by blast
  then show False by (simp add: fresh_id_def)
qed

text \<open>
  C8, as amended. When the candidate is not in the past, no event has its exact start and
  end, the event insert succeeds, the booking insert returns an error and the delete
  that follows succeeds, the call is rejected with the message of the booking error and
  the store is as before the call (in a store where every booking refers to an event).
\<close>

theorem createBooking_rollback:
  assumes future: "\<not> slot_start data < now"
    and free: "select_existing_event db (slot_start data) (slot_end data) = Reply None"
    and ins: "outcome_of db InsertEvent = Succeeds"
    and range: "slot_start data < slot_end data" "slot_end data - slot_start data \<le> MS_PER_DAY"
    and bk: "outcome_of db InsertBooking = ReturnsError m"
    and del: "outcome_of db DeleteEvent = Succeeds"
    and fk: "\<forall>b \<in> set (bookings db). event_id b \<in> ev_id ` set (events db)"
  shows "createBooking db now (Valid data) = (Failure (''Error al crear la reserva: '' @ m), db)"
proof -
  define i where "i = fresh_id (map ev_id (events db))"
  define row where "row = \<lparr>ev_id = 0, title = ''Reserva: '' @ in_name data,
                          description = or_null (in_notes data),
                          ev_start_time = slot_start data, ev_end_time = slot_end data,
                          is_public = True, event_type = ''booking''\<rparr>"
  define db1 where "db1 = db\<lparr>events := events db @ [row\<lparr>ev_id := i\<rparr>]\<rparr>"
  have fresh: "i \<notin> ev_id ` set (events db)"
    using fresh_id_fresh[of "map ev_id (events db)"] by (simp add: i_def)
  have step1: "insert_event db row = (Reply i, db1)"
    using ins range by (simp add: insert_event_def row_def db1_def i_def Let_def)
  have step2: "insert_booking db1 brow = (ReplyError m, db1)" for brow
    using bk by (simp add: insert_booking_def db1_def)
  have keep_events: "filter (\<lambda>e. ev_id e \<noteq> i) (events db) = events db"
    using fresh by (auto simp: filter_id_conv)
  have keep_bookings: "filter (\<lambda>b. event_id b \<noteq> i) (bookings db) = bookings db"
    using fresh fk by (auto simp: filter_id_conv)
  have step3: "delete_event db1 i = (Reply (), db)"
    using del by (simp add: delete_event_def db1_def keep_events keep_bookings)
  show ?thesis
    unfolding createBooking_def
    by (simp only: validation.case future if_False free reply.case option.case
          row_def[symmetric] step1 step2 step3 prod.case)
qed

theorem createBooking_rollback_witness:
  "\<not> slot_start ana < 1704096000000
   \<and> select_existing_event failing_booking_store (slot_start ana) (slot_end ana) = Reply None
   \<and> outcome_of failing_booking_store InsertEvent = Succeeds
   \<and> slot_start ana < slot_end ana \<and> slot_end ana - slot_start ana \<le> MS_PER_DAY
   \<and> outcome_of failing_booking_store InsertBooking = ReturnsError ''insert failed''
   \<and> outcome_of failing_booking_store DeleteEvent = Succeeds
   \<and> map event_id (bookings failing_booking_store) = map ev_id (events failing_booking_store)
   \<and> createBooking failing_booking_store 1704096000000 (Valid ana)
       = (Failure ''Error al crear la reserva: insert failed'', failing_booking_store)"
proof -
  have future: "\<not> slot_start ana < 1704096000000" by (simp add: ana_def)
  have free: "select_existing_event failing_booking_store (slot_start ana) (slot_end ana) = Reply None"
    by code_simp
  have ins: "outcome_of failing_booking_store InsertEvent = Succeeds"
    by (simp add: failing_booking_store_def booked_store_def empty_store_def)
  have range: "slot_start ana < slot_end ana" "slot_end ana - slot_start ana \<le> MS_PER_DAY"
    by (simp_all add: ana_def MS_PER_DAY_def)
  have bk: "outcome_of failing_booking_store InsertBooking = ReturnsError ''insert failed''"
    by (simp add: failing_booking_store_def booked_store_def empty_store_def)
  have del: "outcome_of failing_booking_store DeleteEvent = Succeeds"
    by (simp add: failing_booking_store_def booked_store_def empty_store_def)
  have fk: "\<forall>b \<in> set (bookings failing_booking_store).
              event_id b \<in> ev_id ` set (events failing_booking_store)"
    by (simp add: failing_booking_store_def booked_store_def empty_store_def)
  have same: "map event_id (bookings failing_booking_store)
              = map ev_id (events failing_booking_store)"
    by (simp add: failing_booking_store_def booked_store_def empty_store_def)
  from createBooking_rollback[OF future free ins range bk del fk] future free ins range bk del same
  show ?thesis by simp
qed

text \<open>
  C8, as stated, fails when the delete does not take effect: its result is not looked at,
  so the call is rejected and the event of type booking stays without a booking.
\<close>

theorem createBooking_rollback_counterexample:
  "outcome_of failing_rollback_store InsertEvent = Succeeds
   \<and> outcome_of failing_rollback_store InsertBooking = ReturnsError ''insert failed''
   \<and> events failing_rollback_store = []
   \<and> fst (createBooking failing_rollback_store 1704096000000 (Valid ana))
       = Failure ''Error al crear la reserva: insert failed''
   \<and> events (snd (createBooking failing_rollback_store 1704096000000 (Valid ana)))
       = [\<lparr>ev_id = 1, title = ''Reserva: Ana'', description = None,
           ev_start_time = 1704105000000, ev_end_time = 1704108600000,
           is_public = True, event_type = ''booking''\<rparr>]
   \<and> bookings (snd (createBooking failing_rollback_store 1704096000000 (Valid ana))) = []"
  by code_simp

section \<open>The already-booked check\<close>

lemma select_existing_event_Some:
  assumes "select_existing_event db s e = Reply (Some i)"
  shows "\<exists>ev \<in> set (events db). ev_start_time ev = s \<and> ev_end_time ev = e"
proof -
  from assms obtain ev where
    "filter (\<lambda>ev. ev_start_time ev = s \<and> ev_end_time ev = e) (events db) = [ev]"
    by (auto simp: select_existing_event_def split: outcome.splits list.splits)
  then have "ev \<in> set (filter (\<lambda>ev. ev_start_time ev = s \<and> ev_end_time ev = e) (events db))"
    by simp
  then show ?thesis by auto
qed

lemma createBooking_already_booked:
  assumes "fst (createBooking db now (Valid data)) = Failure ''Este horario ya fue reservado''"
  shows "\<exists>i. select_existing_event db (slot_start data) (slot_end data) = Reply (Some i)"
proof (cases "select_existing_event db (slot_start data) (slot_end data)")
  case (Reply found)
  show ?thesis
  proof (cases found)
    case (Some i)
    with Reply show ?thesis by simp
  next
    case None
    with Reply assms show ?thesis
      by (auto simp: createBooking_def split: if_splits prod.splits reply.splits)
  qed
next
  case (ReplyError m)
  with assms show ?thesis
    by (auto simp: createBooking_def split: if_splits)
next
  case (Thrown m)
  with assms show ?thesis
    by (auto simp: createBooking_def split: if_splits)
qed

text \<open>
  C9. The already-booked rejection of \<open>createBooking\<close> is only given when some event
  in the store has exactly the candidate's start and end. In the store \<open>booked_store\<close>
  the event from 10:00 to 11:00 overlaps the candidate from 10:30 to 11:30 and shares no
  endpoint with it; the call succeeds and the store then holds both events.
\<close>

theorem createBooking_exact_match_only:
  "(fst (createBooking db now (Valid data)) = Failure ''Este horario ya fue reservado''
      \<longrightarrow> (\<exists>ev \<in> set (events db).
             ev_start_time ev = slot_start data \<and> ev_end_time ev = slot_end data))
   \<and> map (\<lambda>ev. (ev_start_time ev, ev_end_time ev)) (events booked_store)
       = [(1704103200000, 1704106800000)]
   \<and> (slot_start ana, slot_end ana) = (1704105000000, 1704108600000)
   \<and> doTimesOverlap (slot_start ana) (slot_end ana) 1704103200000 1704106800000
   \<and> fst (createBooking booked_store 1704096000000 (Valid ana)) = Success 2
   \<and> events (snd (createBooking booked_store 1704096000000 (Valid ana)))
       = [\<lparr>ev_id = 1, title = ''Reserva: Luis'', description = None,
           ev_start_time = 1704103200000, ev_end_time = 1704106800000,
           is_public = True, event_type = ''booking''\<rparr>,
          \<lparr>ev_id = 2, title = ''Reserva: Ana'', description = None,
           ev_start_time = 1704105000000, ev_end_time = 1704108600000,
           is_public = True, event_type = ''booking''\<rparr>]"
proof (intro conjI impI)
  assume "fst (createBooking db now (Valid data)) = Failure ''Este horario ya fue reservado''"
  from createBooking_already_booked[OF this] obtain i where
    "select_existing_event db (slot_start data) (slot_end data) = Reply (Some i)" ..
  then show "\<exists>ev \<in> set (events db).
               ev_start_time ev = slot_start data \<and> ev_end_time ev = slot_end data"
    by (rule select_existing_event_Some)
qed code_simp+

theorem createBooking_exact_match_only_witness:
  "fst (createBooking booked_store 1704096000000
          (Valid (ana\<lparr>slot_start := 1704103200000, slot_end := 1704106800000\<rparr>)))
     = Failure ''Este horario ya fue reservado''
   \<and> (\<exists>ev \<in> set (events booked_store).
         ev_start_time ev = 1704103200000 \<and> ev_end_time ev = 1704106800000)"
proof -
  let ?same = "ana\<lparr>slot_start := 1704103200000, slot_end := 1704106800000\<rparr>"
  have rejected: "fst (createBooking booked_store 1704096000000 (Valid ?same))
                  = Failure ''Este horario ya fue reservado''"
    by code_simp
  with createBooking_exact_match_only[of booked_store 1704096000000 ?same]
  have "\<exists>ev \<in> set (events booked_store).
          ev_start_time ev = slot_start ?same \<and> ev_end_time ev = slot_end ?same"
    by blast
  with rejected show ?thesis by simp
qed

end
